theory Spec2Isabelle
  imports Main "HOL-Library.AList"
begin

section \<open>Data model (internal/models)\<close>

text \<open>
  A row of table \<open>v2ray_instances\<close>, with the fields of struct \<open>V2RayInstance\<close>.
  The two timestamps are assigned by the database and read by no function modelled
  here; the order \<open>created_at\<close> induces is the order of insertion, which is the order
  of the list of rows.
\<close>

record V2RayInstance =
  ID :: int
  UUID :: string
  EC2ID :: string
  EC2Region :: string
  EC2RegionName :: string
  EC2PublicIP :: string
  Status :: string
  DirectLink :: string
  RelayLink :: string
  IsDeleted :: bool

abbreviation StatusPending :: string where "StatusPending \<equiv> ''pending''"
abbreviation StatusCreating :: string where "StatusCreating \<equiv> ''creating''"
abbreviation StatusRunning :: string where "StatusRunning \<equiv> ''running''"
abbreviation StatusDeleting :: string where "StatusDeleting \<equiv> ''deleting''"
abbreviation StatusDeleted :: string where "StatusDeleted \<equiv> ''deleted''"
abbreviation StatusError :: string where "StatusError \<equiv> ''error''"

section \<open>Cloud instance states and errors\<close>

text \<open>
  \<open>ec2types.InstanceStateName\<close> is a string type with six named values; any other value
  is \<open>InstanceStateNameOther\<close>.
\<close>

datatype InstanceStateName =
    InstanceStateNamePending
  | InstanceStateNameRunning
  | InstanceStateNameShuttingDown
  | InstanceStateNameTerminated
  | InstanceStateNameStopping
  | InstanceStateNameStopped
  | InstanceStateNameOther string

text \<open>
  One constructor for each place where the source builds or receives an error:
  the driver's errors of package repository (a failed statement, no row found), the
  wrapped errors of package service, the errors of package aws, and the binding error
  of the handler.
\<close>

datatype error =
    StatementFailed
  | ErrNoRows
  | FailedToLockTable
  | FailedToCheckRegion
  | FailedToGetExisting
  | FailedToCreateRecord
  | FailedToVerify
  | RegionAlreadyActive
  | InstanceNotFound
  | FailedToUpdateStatus
  | NoClientForRegion
  | RunInstancesFailed
  | NoInstancesCreated
  | InstanceIs InstanceStateName
  | WaitTimeout
  | DescribeFailed
  | InstanceNotInCloud
  | NoPublicIP
  | TerminateFailed
  | NoInstancesTerminated
  | BadRequest
  | ContextCanceled

section \<open>The inventory store (internal/repository)\<close>

text \<open>
  The store is the list of rows, oldest first, together with the outcomes of the
  statements still to be issued: every method of \<open>Repository\<close> sends one statement to
  the database, which either executes it or returns an error. \<open>faults\<close> lists, for the
  coming statements in order, whether each executes; once the list is used up every
  statement executes.
\<close>

record db =
  rows :: "V2RayInstance list"
  faults :: "bool list"

text \<open>
  The methods follow their SQL. \<open>Create\<close> inserts uuid, EC2 id, region, status and the
  deleted flag; the other columns take their defaults (empty strings) and the id is the
  next auto-increment value (rows are never removed, so it is the number of rows plus
  one); it returns the id, which the source writes into \<open>instance.ID\<close>. \<open>GetByUUID\<close> and
  \<open>GetRegionActiveInstance\<close> select without ORDER BY and read one row: the model takes
  the oldest matching row. \<open>List\<close> orders by creation time, newest first. The four
  updates select their rows by uuid alone, whether soft-deleted or not. \<open>EC2RegionName\<close>
  is not a column; it is empty in every row read.
\<close>

definition exec :: "db \<Rightarrow> bool \<times> db" where
  "exec d = (case faults d of [] \<Rightarrow> (True, d) | ok # rest \<Rightarrow> (ok, d\<lparr>faults := rest\<rparr>))"

text \<open>Whether the store executes statement number \<open>n\<close> of those still to be issued.\<close>

definition executes :: "nat \<Rightarrow> db \<Rightarrow> bool" where
  "executes n d = (length (faults d) \<le> n \<or> faults d ! n)"

text \<open>The store once its next \<open>k\<close> statements have been answered, rows apart.\<close>

definition advance :: "nat \<Rightarrow> db \<Rightarrow> db" where
  "advance k d = d\<lparr>faults := drop k (faults d)\<rparr>"

definition Repository_Create :: "db \<Rightarrow> V2RayInstance \<Rightarrow> (error + int) \<times> db" where
  "Repository_Create d inst =
     (let (ok, d1) = exec d in
      if \<not> ok then (Inl StatementFailed, d1)
      else
        let newid = int (length (rows d1)) + 1 in
        (Inr newid,
         d1\<lparr>rows := rows d1 @
           [\<lparr>ID = newid, UUID = UUID inst, EC2ID = EC2ID inst, EC2Region = EC2Region inst,
             EC2RegionName = [], EC2PublicIP = [], Status = Status inst,
             DirectLink = [], RelayLink = [], IsDeleted = IsDeleted inst\<rparr>]\<rparr>))"

definition Repository_GetByUUID :: "db \<Rightarrow> string \<Rightarrow> (error + V2RayInstance) \<times> db" where
  "Repository_GetByUUID d uuid =
     (let (ok, d1) = exec d in
      if \<not> ok then (Inl StatementFailed, d1)
      else
        case find (\<lambda>r. UUID r = uuid \<and> \<not> IsDeleted r) (rows d1) of
          None \<Rightarrow> (Inl ErrNoRows, d1)
        | Some r \<Rightarrow> (Inr r, d1))"

definition Repository_List :: "db \<Rightarrow> (error + V2RayInstance list) \<times> db" where
  "Repository_List d =
     (let (ok, d1) = exec d in
      if \<not> ok then (Inl StatementFailed, d1)
      else (Inr (rev (filter (\<lambda>r. \<not> IsDeleted r) (rows d1))), d1))"

definition Repository_Update :: "db \<Rightarrow> V2RayInstance \<Rightarrow> error option \<times> db" where
  "Repository_Update d inst =
     (let (ok, d1) = exec d in
      if \<not> ok then (Some StatementFailed, d1)
      else
        (None,
         d1\<lparr>rows := map (\<lambda>r. if UUID r = UUID inst
                               then r\<lparr>EC2ID := EC2ID inst, EC2Region := EC2Region inst,
                                      EC2PublicIP := EC2PublicIP inst, Status := Status inst,
                                      DirectLink := DirectLink inst, RelayLink := RelayLink inst,
                                      IsDeleted := IsDeleted inst\<rparr>
                               else r) (rows d1)\<rparr>))"

definition Repository_UpdateStatus :: "db \<Rightarrow> string \<Rightarrow> string \<Rightarrow> error option \<times> db" where
  "Repository_UpdateStatus d uuid status =
     (let (ok, d1) = exec d in
      if \<not> ok then (Some StatementFailed, d1)
      else
        (None,
         d1\<lparr>rows := map (\<lambda>r. if UUID r = uuid then r\<lparr>Status := status\<rparr> else r) (rows d1)\<rparr>))"

definition Repository_UpdateStatusAndIP ::
    "db \<Rightarrow> string \<Rightarrow> string \<Rightarrow> string \<Rightarrow> error option \<times> db" where
  "Repository_UpdateStatusAndIP d uuid status publicIP =
     (let (ok, d1) = exec d in
      if \<not> ok then (Some StatementFailed, d1)
      else
        (None,
         d1\<lparr>rows := map (\<lambda>r. if UUID r = uuid
                               then r\<lparr>Status := status, EC2PublicIP := publicIP\<rparr>
                               else r) (rows d1)\<rparr>))"

definition Repository_Delete :: "db \<Rightarrow> string \<Rightarrow> error option \<times> db" where
  "Repository_Delete d uuid =
     (let (ok, d1) = exec d in
      if \<not> ok then (Some StatementFailed, d1)
      else
        (None,
         d1\<lparr>rows := map (\<lambda>r. if UUID r = uuid
                               then r\<lparr>Status := StatusDeleted, IsDeleted := True\<rparr>
                               else r) (rows d1)\<rparr>))"

text \<open>The WHERE clause shared by the two region queries and by the re-scan of the service.\<close>

definition activeIn :: "string \<Rightarrow> V2RayInstance \<Rightarrow> bool" where
  "activeIn region r =
     (EC2Region r = region \<and> \<not> IsDeleted r \<and>
      (Status r = StatusPending \<or> Status r = StatusCreating \<or> Status r = StatusRunning))"

definition Repository_CheckRegionHasActiveInstance :: "db \<Rightarrow> string \<Rightarrow> (error + bool) \<times> db" where
  "Repository_CheckRegionHasActiveInstance d region =
     (let (ok, d1) = exec d in
      if \<not> ok then (Inl StatementFailed, d1)
      else (Inr (length (filter (activeIn region) (rows d1)) > 0), d1))"

definition Repository_GetRegionActiveInstance ::
    "db \<Rightarrow> string \<Rightarrow> (error + V2RayInstance) \<times> db" where
  "Repository_GetRegionActiveInstance d region =
     (let (ok, d1) = exec d in
      if \<not> ok then (Inl StatementFailed, d1)
      else
        case find (activeIn region) (rows d1) of
          None \<Rightarrow> (Inl ErrNoRows, d1)
        | Some r \<Rightarrow> (Inr r, d1))"

definition Repository_LockTable :: "db \<Rightarrow> error option \<times> db" where
  "Repository_LockTable d =
     (let (ok, d1) = exec d in if \<not> ok then (Some StatementFailed, d1) else (None, d1))"

definition Repository_UnlockTable :: "db \<Rightarrow> error option \<times> db" where
  "Repository_UnlockTable d =
     (let (ok, d1) = exec d in if \<not> ok then (Some StatementFailed, d1) else (None, d1))"

section \<open>The provisioning service (internal/service): CreateInstance\<close>

text \<open>
  The loop of \<open>CreateInstance\<close> over \<open>allInstances\<close>: it counts the active rows of the
  region and stops, reporting a duplicate, as soon as the count exceeds one.
\<close>

fun duplicateActive :: "string \<Rightarrow> V2RayInstance list \<Rightarrow> nat \<Rightarrow> bool" where
  "duplicateActive region [] activeCount = False"
| "duplicateActive region (inst # rest) activeCount =
     (if activeIn region inst
      then (if activeCount + 1 > 1 then True else duplicateActive region rest (activeCount + 1))
      else duplicateActive region rest activeCount)"

text \<open>
  \<open>V2RayService.CreateInstance\<close>. \<open>newUUID\<close> is the value of \<open>uuid.New()\<close>.
  \<open>concurrent\<close> is what other writers do to the table between the insert and the
  re-scan (the identity when the table lock keeps them out). The third component of
  the result holds the arguments of the goroutine \<open>createInstanceAsync\<close> when one is
  started. The deferred \<open>UnlockTable\<close> runs on every return after the lock was taken;
  its error is only logged.
\<close>

type_synonym launch = "int \<times> string \<times> string"

text \<open>The body of \<open>CreateInstance\<close> after the table lock has been taken.\<close>

definition CreateInstance_locked ::
    "(V2RayInstance list \<Rightarrow> V2RayInstance list) \<Rightarrow> string \<Rightarrow> db \<Rightarrow> string
      \<Rightarrow> (error + string) \<times> db \<times> launch option" where
  "CreateInstance_locked concurrent newUUID d region =
     (case Repository_CheckRegionHasActiveInstance d region of
        (Inl e, d1) \<Rightarrow> (Inl FailedToCheckRegion, d1, None)
      | (Inr hasActive, d1) \<Rightarrow>
          if hasActive then
            (case Repository_GetRegionActiveInstance d1 region of
               (Inl e, d2) \<Rightarrow> (Inl FailedToGetExisting, d2, None)
             | (Inr existingInstance, d2) \<Rightarrow> (Inr (UUID existingInstance), d2, None))
          else
            (let inst = \<lparr>ID = 0, UUID = newUUID, EC2ID = [], EC2Region = region,
                         EC2RegionName = [], EC2PublicIP = [], Status = StatusPending,
                         DirectLink = [], RelayLink = [], IsDeleted = False\<rparr> in
             case Repository_Create d1 inst of
               (Inl e, d2) \<Rightarrow> (Inl FailedToCreateRecord, d2, None)
             | (Inr newid, d2) \<Rightarrow>
                 (case Repository_List (d2\<lparr>rows := concurrent (rows d2)\<rparr>) of
                    (Inl e, d3) \<Rightarrow> (Inl FailedToVerify, d3, None)
                  | (Inr allInstances, d3) \<Rightarrow>
                      if duplicateActive region allInstances 0
                      then (Inl RegionAlreadyActive, snd (Repository_Delete d3 newUUID), None)
                      else (Inr newUUID, d3, Some (newid, region, newUUID)))))"

definition V2RayService_CreateInstance ::
    "(V2RayInstance list \<Rightarrow> V2RayInstance list) \<Rightarrow> string \<Rightarrow> db \<Rightarrow> string
      \<Rightarrow> (error + string) \<times> db \<times> launch option" where
  "V2RayService_CreateInstance concurrent newUUID d region =
     (case Repository_LockTable d of
        (Some e, d1) \<Rightarrow> (Inl FailedToLockTable, d1, None)
      | (None, d1) \<Rightarrow>
          (case CreateInstance_locked concurrent newUUID d1 region of
             (res, d2, l) \<Rightarrow> (res, snd (Repository_UnlockTable d2), l)))"

section \<open>The HTTP handler (internal/api/handlers): CreateInstance\<close>

text \<open>
  A response is its HTTP status and the fields of its body. \<open>req\<close> is the request
  body after \<open>ShouldBindJSON\<close>: \<open>None\<close> when the body is not JSON, otherwise the value of field \<open>region\<close>, which the binding tag \<open>required\<close>
  rejects when it is empty.
\<close>

datatype response =
    ErrorResponse nat error
  | CreateInstanceResponse nat string string
  | DeleteInstanceResponse nat string

definition V2RayHandler_CreateInstance ::
    "(V2RayInstance list \<Rightarrow> V2RayInstance list) \<Rightarrow> string \<Rightarrow> db \<Rightarrow> string option
      \<Rightarrow> response \<times> db \<times> launch option" where
  "V2RayHandler_CreateInstance concurrent newUUID d req =
     (case req of
        None \<Rightarrow> (ErrorResponse 400 BadRequest, d, None)
      | Some region \<Rightarrow>
          if region = [] then (ErrorResponse 400 BadRequest, d, None)
          else
            (case V2RayService_CreateInstance concurrent newUUID d region of
               (Inl err, d1, l) \<Rightarrow> (ErrorResponse 500 err, d1, l)
             | (Inr uuid, d1, l) \<Rightarrow> (CreateInstanceResponse 200 uuid ''pending'', d1, l)))"

section \<open>Contexts\<close>

text \<open>
  A \<open>context.Context\<close>, as far as the code depends on it: whether it is cancelled when a
  request is issued with it. \<open>context.Background()\<close> and \<open>context.TODO()\<close> are never
  cancelled. The context of an HTTP request is cancelled when the client's connection
  goes away and at the latest when the handler has returned; a goroutine that was given
  it keeps running. The places where a function issues a request (a statement of the
  store, a request to the cloud) with its context are numbered from 0 in the order the
  function reaches them; \<open>RequestContext n\<close> is a request context that is live at the
  places before number \<open>n\<close> and cancelled from place \<open>n\<close> on. \<open>logging.WithRequestID\<close> and
  \<open>logging.WithInstanceID\<close> attach a value (\<open>context.WithValue\<close>); the context they
  return is cancelled with the one they were given. A request issued with a cancelled
  context is not sent: \<open>ExecContext\<close>, \<open>GetContext\<close> and the requests of the AWS SDK
  return the error of the context. Only \<open>DeleteInstance\<close> hands its context to a
  goroutine; in every other call a request refused because its context was cancelled is
  one of the failures that \<open>faults\<close> and the answers of the cloud describe.
\<close>

datatype go_context = Background | RequestContext nat

definition ctxCancelled :: "go_context \<Rightarrow> nat \<Rightarrow> bool" where
  "ctxCancelled ctx i = (case ctx of Background \<Rightarrow> False | RequestContext n \<Rightarrow> n \<le> i)"

text \<open>The context as a function sees it that receives it \<open>k\<close> places later.\<close>

definition later :: "nat \<Rightarrow> go_context \<Rightarrow> go_context" where
  "later k ctx = (case ctx of Background \<Rightarrow> Background | RequestContext n \<Rightarrow> RequestContext (n - k))"

text \<open>A statement of the store issued with context \<open>ctx\<close> at place \<open>i\<close>.\<close>

definition withContext ::
    "go_context \<Rightarrow> nat \<Rightarrow> (db \<Rightarrow> error option \<times> db) \<Rightarrow> db \<Rightarrow> error option \<times> db" where
  "withContext ctx i statement d =
     (if ctxCancelled ctx i then (Some ContextCanceled, d) else statement d)"

section \<open>The cloud gateway (internal/aws)\<close>

text \<open>
  What the AWS SDK returns is input to the model. An instance of a response carries the
  fields the source reads. A \<open>describe_result\<close> is the answer to one
  \<open>DescribeInstances\<close> request: an error, or the reservations with their instances.
\<close>

record ec2_instance =
  InstanceId :: string
  PublicIpAddress :: "string option"
  StateName :: InstanceStateName
  Tags :: "(string \<times> string) list"

datatype describe_result = DescribeError | Reservations "ec2_instance list list"

record AWSRegionConfig =
  TemplateID :: string
  Name :: string

text \<open>
  The configuration (\<open>config.AppConfig\<close>) and the answers of the cloud to the requests
  of one run: \<open>Regions\<close> is the region table (an \<open>EC2Client\<close> holds a client for exactly
  these regions), \<open>DescribeWait k\<close> and \<open>DescribeTerminated k\<close> answer the request of
  iteration \<open>k\<close> of the two polling loops, \<open>DescribeRegion\<close> answers the listing of a region,
  and \<open>LocalManager\<close> is \<open>None\<close> when no local V2Ray manager is configured and otherwise
  tells whether \<open>AddInstance\<close> succeeds. \<open>InstanceWaitTimeout\<close> is
  \<open>Scheduler.InstanceWaitTimeout\<close>, in seconds. \<open>Latency k\<close> is the time, in nanoseconds,
  that the requests of a polling loop have taken up to the clock reading of its iteration
  \<open>k\<close>, beyond the first nanosecond.
\<close>

record env =
  Regions :: "(string \<times> AWSRegionConfig) list"
  InstanceWaitTimeout :: int
  Latency :: "nat \<Rightarrow> nat"
  RunInstances :: "string list option"
  DescribeWait :: "nat \<Rightarrow> describe_result"
  DescribeIP :: describe_result
  LocalManager :: "bool option"
  TerminateInstances :: "nat option"
  DescribeTerminated :: "nat \<Rightarrow> describe_result"
  DescribeRegion :: "string \<Rightarrow> describe_result"

definition hasClient :: "env \<Rightarrow> string \<Rightarrow> bool" where
  "hasClient e region = (region \<in> set (map fst (Regions e)))"

text \<open>\<open>resp.Reservations[0].Instances[0]\<close>, when both lists are non-empty.\<close>

fun first_instance :: "ec2_instance list list \<Rightarrow> ec2_instance option" where
  "first_instance [] = None"
| "first_instance ([] # rs) = None"
| "first_instance ((i # is) # rs) = Some i"

text \<open>
  \<open>EC2Client.CreateInstance\<close>: the client map and the region table hold the same regions,
  so \<open>GetRegionConfig\<close> cannot fail once the client is found. The user data and the tag
  do not influence the result and are left out.
\<close>

definition EC2Client_CreateInstance :: "env \<Rightarrow> string \<Rightarrow> error + string" where
  "EC2Client_CreateInstance e region =
     (if \<not> hasClient e region then Inl NoClientForRegion
      else
        case RunInstances e of
          None \<Rightarrow> Inl RunInstancesFailed
        | Some [] \<Rightarrow> Inl NoInstancesCreated
        | Some (instanceID # _) \<Rightarrow> Inr instanceID)"

text \<open>
  The state one iteration of \<open>WaitForInstanceRunning\<close> sees: none when the request failed
  (the error is logged and the loop goes on) or reported no instance.
\<close>

definition observedState :: "describe_result \<Rightarrow> InstanceStateName option" where
  "observedState r =
     (case r of
        DescribeError \<Rightarrow> None
      | Reservations rs \<Rightarrow> map_option StateName (first_instance rs))"

text \<open>
  The clock of the two polling loops, in nanoseconds as \<open>time.Duration\<close> counts. Each
  iteration ends with a sleep of five seconds and a reading of the clock: at the reading
  of iteration \<open>k\<close> (counted from 0), \<open>time.Since(start)\<close> is the \<open>k + 1\<close> sleeps and the time
  the requests have taken, which is more than nothing. The bound
  \<open>time.Duration(InstanceWaitTimeout) * time.Second\<close> is a product of 64-bit integers and
  wraps around. The value of \<open>time.Since\<close> stops at the largest duration, 292 years; the
  model leaves that out.
\<close>

definition wrap64 :: "int \<Rightarrow> int" where
  "wrap64 x = (x + 2 ^ 63) mod 2 ^ 64 - 2 ^ 63"

definition since :: "(nat \<Rightarrow> nat) \<Rightarrow> nat \<Rightarrow> int" where
  "since latency k = 5000000000 * (int k + 1) + 1 + int (latency k)"

definition waitBound :: "env \<Rightarrow> int" where
  "waitBound e = wrap64 (InstanceWaitTimeout e * 1000000000)"

text \<open>
  The loop of \<open>WaitForInstanceRunning\<close>; \<open>k\<close> counts the iterations done. A failed request
  is logged and the loop goes on. \<open>None\<close> is the \<open>nil\<close> error. The workflow that calls it
  runs with \<open>context.TODO()\<close>.
\<close>

function waitRunning ::
    "(nat \<Rightarrow> describe_result) \<Rightarrow> (nat \<Rightarrow> nat) \<Rightarrow> int \<Rightarrow> nat \<Rightarrow> error option" where
  "waitRunning describe latency bound k =
     (let st = observedState (describe k) in
      if st = Some InstanceStateNameRunning then None
      else if st = Some InstanceStateNameTerminated then Some (InstanceIs InstanceStateNameTerminated)
      else if st = Some InstanceStateNameShuttingDown then Some (InstanceIs InstanceStateNameShuttingDown)
      else if since latency k > bound then Some WaitTimeout
      else waitRunning describe latency bound (k + 1))"
  by pat_completeness auto
termination
  by (relation "measure (\<lambda>(describe, latency, bound, k). nat (bound - 5000000000 * int k))")
    (auto simp add: since_def)

declare waitRunning.simps [simp del]

definition EC2Client_WaitForInstanceRunning :: "env \<Rightarrow> string \<Rightarrow> error option" where
  "EC2Client_WaitForInstanceRunning e region =
     (if \<not> hasClient e region then Some NoClientForRegion
      else waitRunning (DescribeWait e) (Latency e) (waitBound e) 0)"

definition EC2Client_GetInstancePublicIP :: "env \<Rightarrow> string \<Rightarrow> error + string" where
  "EC2Client_GetInstancePublicIP e region =
     (if \<not> hasClient e region then Inl NoClientForRegion
      else
        case DescribeIP e of
          DescribeError \<Rightarrow> Inl DescribeFailed
        | Reservations rs \<Rightarrow>
            (case first_instance rs of
               None \<Rightarrow> Inl InstanceNotInCloud
             | Some i \<Rightarrow>
                 (case PublicIpAddress i of
                    None \<Rightarrow> Inl NoPublicIP
                  | Some publicIP \<Rightarrow> Inr publicIP)))"

text \<open>
  \<open>EC2Client.TerminateInstance\<close> and \<open>EC2Client.WaitForInstanceTerminated\<close> are called by
  the teardown workflow with the context it was given; \<open>i\<close> is the place of their first
  request.
\<close>

definition EC2Client_TerminateInstance :: "go_context \<Rightarrow> nat \<Rightarrow> env \<Rightarrow> string \<Rightarrow> error option" where
  "EC2Client_TerminateInstance ctx i e region =
     (if \<not> hasClient e region then Some NoClientForRegion
      else if ctxCancelled ctx i then Some TerminateFailed
      else
        case TerminateInstances e of
          None \<Rightarrow> Some TerminateFailed
        | Some n \<Rightarrow> if n = 0 then Some NoInstancesTerminated else None)"

text \<open>
  The loop of \<open>WaitForInstanceTerminated\<close>, with the same clock: a failed request ends
  it with an error, an absent or terminated instance ends it with success. The second
  component of the result is the number of requests the loop has issued.
\<close>

function waitTerminated ::
    "(nat \<Rightarrow> describe_result) \<Rightarrow> (nat \<Rightarrow> nat) \<Rightarrow> int \<Rightarrow> nat \<Rightarrow> error option \<times> nat" where
  "waitTerminated describe latency bound k =
     (case describe k of
        DescribeError \<Rightarrow> (Some DescribeFailed, k + 1)
      | Reservations rs \<Rightarrow>
          (case first_instance rs of
             None \<Rightarrow> (None, k + 1)
           | Some i \<Rightarrow>
               if StateName i = InstanceStateNameTerminated then (None, k + 1)
               else if since latency k > bound then (Some WaitTimeout, k + 1)
               else waitTerminated describe latency bound (k + 1)))"
  by pat_completeness auto
termination
  by (relation "measure (\<lambda>(describe, latency, bound, k). nat (bound - 5000000000 * int k))")
    (auto simp add: since_def)

declare waitTerminated.simps [simp del]

definition EC2Client_WaitForInstanceTerminated ::
    "go_context \<Rightarrow> nat \<Rightarrow> env \<Rightarrow> string \<Rightarrow> error option \<times> nat" where
  "EC2Client_WaitForInstanceTerminated ctx i e region =
     (if \<not> hasClient e region then (Some NoClientForRegion, 0)
      else
        waitTerminated
          (\<lambda>k. if ctxCancelled ctx (i + k) then DescribeError else DescribeTerminated e k)
          (Latency e) (waitBound e) 0)"

section \<open>The provisioning service: the workflows and DeleteInstance\<close>

text \<open>
  A workflow returns nothing in the source; the model returns how it ended (the last
  log line), the store it leaves, and the methods of \<open>EC2Client\<close> and of the local
  manager it called, in order.
\<close>

datatype outcome = Created string | Deleted | Aborted error

datatype call =
    CallCreateInstance
  | CallWaitForInstanceRunning
  | CallGetInstancePublicIP
  | CallAddInstance
  | CallTerminateInstance
  | CallWaitForInstanceTerminated

definition V2RayService_createInstanceAsync ::
    "env \<Rightarrow> db \<Rightarrow> int \<Rightarrow> string \<Rightarrow> string \<Rightarrow> outcome \<times> db \<times> call list" where
  "V2RayService_createInstanceAsync e d instanceID region instanceUUID =
     (case Repository_UpdateStatus d instanceUUID StatusCreating of
        (Some err, d1) \<Rightarrow> (Aborted err, d1, [])
      | (None, d1) \<Rightarrow>
     (case EC2Client_CreateInstance e region of
        Inl err \<Rightarrow>
          (Aborted err, snd (Repository_UpdateStatus d1 instanceUUID StatusError),
           [CallCreateInstance])
      | Inr ec2ID \<Rightarrow>
     (case Repository_GetByUUID d1 instanceUUID of
        (Inl err, d2) \<Rightarrow>
          (Aborted err, snd (Repository_UpdateStatus d2 instanceUUID StatusError),
           [CallCreateInstance])
      | (Inr inst, d2) \<Rightarrow>
     (case Repository_Update d2 (inst\<lparr>EC2ID := ec2ID\<rparr>) of
        (Some err, d3) \<Rightarrow>
          (Aborted err, snd (Repository_UpdateStatus d3 instanceUUID StatusError),
           [CallCreateInstance])
      | (None, d3) \<Rightarrow>
     (case EC2Client_WaitForInstanceRunning e region of
        Some err \<Rightarrow>
          (Aborted err, snd (Repository_UpdateStatus d3 instanceUUID StatusError),
           [CallCreateInstance, CallWaitForInstanceRunning])
      | None \<Rightarrow>
     (case EC2Client_GetInstancePublicIP e region of
        Inl err \<Rightarrow>
          (Aborted err, snd (Repository_UpdateStatus d3 instanceUUID StatusError),
           [CallCreateInstance, CallWaitForInstanceRunning, CallGetInstancePublicIP])
      | Inr publicIP \<Rightarrow>
          (let calls = [CallCreateInstance, CallWaitForInstanceRunning, CallGetInstancePublicIP]
                 @ (case LocalManager e of None \<Rightarrow> [] | Some ok \<Rightarrow> [CallAddInstance]) in
           case Repository_UpdateStatusAndIP d3 instanceUUID StatusRunning publicIP of
             (Some err, d4) \<Rightarrow> (Aborted err, d4, calls)
           | (None, d4) \<Rightarrow> (Created publicIP, d4, calls))))))))"

text \<open>
  \<open>V2RayService.DeleteInstance\<close>; the third component holds the arguments of the
  goroutine \<open>deleteInstanceAsync\<close> when one is started. The goroutine is given the context
  of the call itself, which by then has passed its first two places.
\<close>

type_synonym teardown = "go_context \<times> string \<times> string \<times> string"

definition V2RayService_DeleteInstance ::
    "go_context \<Rightarrow> db \<Rightarrow> string \<Rightarrow> error option \<times> db \<times> teardown option" where
  "V2RayService_DeleteInstance ctx d uuid =
     (case (if ctxCancelled ctx 0 then (Inl ContextCanceled, d) else Repository_GetByUUID d uuid) of
        (Inl err, d1) \<Rightarrow> (Some InstanceNotFound, d1, None)
      | (Inr inst, d1) \<Rightarrow>
          (case withContext ctx 1 (\<lambda>d. Repository_UpdateStatus d uuid StatusDeleting) d1 of
             (Some err, d2) \<Rightarrow> (Some FailedToUpdateStatus, d2, None)
           | (None, d2) \<Rightarrow> (None, d2, Some (later 2 ctx, uuid, EC2ID inst, EC2Region inst))))"

text \<open>
  \<open>V2RayService.deleteInstanceAsync\<close>. Its places are: 0 the status write, 1 the
  termination request, 2, 3, ... the requests of the polling loop, and after them the
  last write; the write of status error after a failed step takes the place that
  follows that step.
\<close>

definition V2RayService_deleteInstanceAsync ::
    "go_context \<Rightarrow> env \<Rightarrow> db \<Rightarrow> string \<Rightarrow> string \<Rightarrow> string \<Rightarrow> outcome \<times> db \<times> call list" where
  "V2RayService_deleteInstanceAsync ctx e d uuid ec2ID region =
     (case withContext ctx 0 (\<lambda>d. Repository_UpdateStatus d uuid StatusDeleting) d of
        (Some err, d1) \<Rightarrow> (Aborted err, d1, [])
      | (None, d1) \<Rightarrow>
     (case EC2Client_TerminateInstance ctx 1 e region of
        Some err \<Rightarrow>
          (Aborted err,
           snd (withContext ctx 2 (\<lambda>d. Repository_UpdateStatus d uuid StatusError) d1),
           [CallTerminateInstance])
      | None \<Rightarrow>
     (case EC2Client_WaitForInstanceTerminated ctx 2 e region of
        (Some err, polls) \<Rightarrow>
          (Aborted err,
           snd (withContext ctx (2 + polls) (\<lambda>d. Repository_UpdateStatus d uuid StatusError) d1),
           [CallTerminateInstance, CallWaitForInstanceTerminated])
      | (None, polls) \<Rightarrow>
          (case withContext ctx (2 + polls) (\<lambda>d. Repository_Delete d uuid) d1 of
             (Some err, d2) \<Rightarrow>
               (Aborted err, d2, [CallTerminateInstance, CallWaitForInstanceTerminated])
           | (None, d2) \<Rightarrow>
               (Deleted, d2, [CallTerminateInstance, CallWaitForInstanceTerminated])))))"

text \<open>
  \<open>V2RayHandler.DeleteInstance\<close> (internal/api/handlers): the service is called with the
  context of the request, \<open>logging.WithRequestID(c.Request.Context())\<close>; \<open>n\<close> is the place
  from which that context is cancelled.
\<close>

definition V2RayHandler_DeleteInstance ::
    "nat \<Rightarrow> db \<Rightarrow> string \<Rightarrow> response \<times> db \<times> teardown option" where
  "V2RayHandler_DeleteInstance n d uuid =
     (case V2RayService_DeleteInstance (RequestContext n) d uuid of
        (Some err, d1, l) \<Rightarrow> (ErrorResponse 500 err, d1, l)
      | (None, d1, l) \<Rightarrow> (DeleteInstanceResponse 200 ''deleting'', d1, l))"


section \<open>The cloud reconciler (internal/aws DescribeInstances, internal/scheduler)\<close>

record InstanceInfo =
  InstanceID :: string
  Region :: string
  PublicIP :: string
  InfoUUID :: string
  InfoStatus :: string

fun ConvertInstanceStateToModelStatus :: "InstanceStateName \<Rightarrow> string" where
  "ConvertInstanceStateToModelStatus InstanceStateNamePending = StatusCreating"
| "ConvertInstanceStateToModelStatus InstanceStateNameRunning = StatusRunning"
| "ConvertInstanceStateToModelStatus InstanceStateNameShuttingDown = StatusDeleting"
| "ConvertInstanceStateToModelStatus InstanceStateNameTerminated = StatusDeleted"
| "ConvertInstanceStateToModelStatus InstanceStateNameStopped = StatusDeleted"
| "ConvertInstanceStateToModelStatus InstanceStateNameStopping = StatusDeleting"
| "ConvertInstanceStateToModelStatus (InstanceStateNameOther s) = StatusError"

text \<open>The value of the first tag whose key is \<open>UUID\<close>; the empty string when there is none.\<close>

definition uuidTag :: "(string \<times> string) list \<Rightarrow> string" where
  "uuidTag tags = (case find (\<lambda>tag. fst tag = ''UUID'') tags of None \<Rightarrow> [] | Some tag \<Rightarrow> snd tag)"

definition EC2Client_DescribeInstances :: "env \<Rightarrow> string \<Rightarrow> error + InstanceInfo list" where
  "EC2Client_DescribeInstances e region =
     (if \<not> hasClient e region then Inl NoClientForRegion
      else
        case DescribeRegion e region of
          DescribeError \<Rightarrow> Inl DescribeFailed
        | Reservations rs \<Rightarrow>
            Inr (map (\<lambda>i. \<lparr>InstanceID = InstanceId i, Region = region,
                            PublicIP = (case PublicIpAddress i of None \<Rightarrow> [] | Some ip \<Rightarrow> ip),
                            InfoUUID = uuidTag (Tags i),
                            InfoStatus = ConvertInstanceStateToModelStatus (StateName i)\<rparr>)
                     (filter (\<lambda>i. StateName i \<noteq> InstanceStateNameTerminated) (concat rs))))"

text \<open>
  \<open>AWSInstanceSyncTask.createInstance\<close> and \<open>updateInstance\<close>; both only log the error of
  the store.
\<close>

definition AWSInstanceSyncTask_createInstance :: "db \<Rightarrow> InstanceInfo \<Rightarrow> db" where
  "AWSInstanceSyncTask_createInstance d inst =
     (if InfoUUID inst = [] then d
      else
        snd (Repository_Create d
               \<lparr>ID = 0, UUID = InfoUUID inst, EC2ID = InstanceID inst, EC2Region = Region inst,
                EC2RegionName = [], EC2PublicIP = PublicIP inst, Status = StatusRunning,
                DirectLink = [], RelayLink = [], IsDeleted = False\<rparr>))"

definition AWSInstanceSyncTask_updateInstance :: "db \<Rightarrow> V2RayInstance \<Rightarrow> InstanceInfo \<Rightarrow> db" where
  "AWSInstanceSyncTask_updateInstance d dbInstance inst =
     (let dbInstance1 = (if EC2PublicIP dbInstance \<noteq> PublicIP inst
                         then dbInstance\<lparr>EC2PublicIP := PublicIP inst\<rparr> else dbInstance);
          dbInstance2 = (if Status dbInstance1 \<noteq> InfoStatus inst
                         then dbInstance1\<lparr>Status := InfoStatus inst\<rparr> else dbInstance1)
      in snd (Repository_Update d dbInstance2))"

text \<open>
  \<open>syncInstances\<close>. \<open>dbInstanceMap\<close> is a Go map from EC2 id to row, here an association
  list with at most one entry per key. The inner loop runs over the instances of one
  region, the outer loop over the configured regions (in the order of the region table;
  Go leaves the order open), and the last loop soft-deletes the rows still in the map
  (the deletions are by uuid and commute, so their order does not matter). The map
  \<open>awsInstanceIDs\<close> of the source is written and never read; it is left out.
\<close>

type_synonym dbInstanceMap = "(string \<times> V2RayInstance) list"

fun syncRegionInstances :: "db \<times> dbInstanceMap \<Rightarrow> InstanceInfo list \<Rightarrow> db \<times> dbInstanceMap" where
  "syncRegionInstances (d, m) [] = (d, m)"
| "syncRegionInstances (d, m) (inst # rest) =
     (case map_of m (InstanceID inst) of
        Some dbInstance \<Rightarrow>
          syncRegionInstances
            (AWSInstanceSyncTask_updateInstance d dbInstance inst, AList.delete (InstanceID inst) m)
            rest
      | None \<Rightarrow> syncRegionInstances (AWSInstanceSyncTask_createInstance d inst, m) rest)"

fun syncRegions :: "env \<Rightarrow> db \<times> dbInstanceMap \<Rightarrow> string list \<Rightarrow> db \<times> dbInstanceMap" where
  "syncRegions e s [] = s"
| "syncRegions e s (region # rest) =
     (case EC2Client_DescribeInstances e region of
        Inl err \<Rightarrow> syncRegions e s rest
      | Inr instances \<Rightarrow> syncRegions e (syncRegionInstances s instances) rest)"

definition AWSInstanceSyncTask_syncInstances :: "env \<Rightarrow> db \<Rightarrow> db" where
  "AWSInstanceSyncTask_syncInstances e d =
     (case Repository_List d of
        (Inl err, d1) \<Rightarrow> d1
      | (Inr dbInstances, d1) \<Rightarrow>
          (let dbInstanceMap = fold (\<lambda>r m. AList.update (EC2ID r) r m) dbInstances [] in
           case syncRegions e (d1, dbInstanceMap) (map fst (Regions e)) of
             (d2, unmatched) \<Rightarrow>
               fold (\<lambda>entry dx. snd (Repository_Delete dx (UUID (snd entry)))) unmatched d2))"

section \<open>The task scheduler (internal/scheduler)\<close>

text \<open>
  The only state of a task that \<open>Stop\<close> touches is its channel \<open>stopCh\<close>, which is open
  or closed. Closing a closed channel panics in Go: \<open>AWSInstanceSyncTask.Stop\<close>, whose
  body is \<open>close(t.stopCh)\<close>, returns \<open>None\<close> for the panic.
\<close>

record AWSInstanceSyncTask =
  stopChClosed :: bool

definition NewAWSInstanceSyncTask :: AWSInstanceSyncTask where
  "NewAWSInstanceSyncTask = \<lparr>stopChClosed = False\<rparr>"

definition AWSInstanceSyncTask_Stop :: "AWSInstanceSyncTask \<Rightarrow> AWSInstanceSyncTask option" where
  "AWSInstanceSyncTask_Stop t = (if stopChClosed t then None else Some (t\<lparr>stopChClosed := True\<rparr>))"

text \<open>
  The scheduler: the registered tasks by name (a Go map, here an association list),
  whether the shared context is cancelled, and the names of the tasks whose goroutine
  has been started and has not returned (the wait group counts them). A task's \<open>Start\<close>
  returns once the context is cancelled, so \<open>wg.Wait()\<close> after \<open>cancel()\<close> sees every
  started task return. The events record the order in which things happen.
\<close>

record Scheduler =
  tasks :: "(string \<times> AWSInstanceSyncTask) list"
  cancelled :: bool
  started :: "string list"

datatype event =
    CancelRaised
  | TaskReturned string
  | WaitReturned
  | StopHookCalled string

definition NewScheduler :: Scheduler where
  "NewScheduler = \<lparr>tasks = [], cancelled = False, started = []\<rparr>"

definition Scheduler_Register :: "Scheduler \<Rightarrow> string \<Rightarrow> AWSInstanceSyncTask \<Rightarrow> Scheduler" where
  "Scheduler_Register s name task = s\<lparr>tasks := AList.update name task (tasks s)\<rparr>"

definition Scheduler_Start :: "Scheduler \<Rightarrow> Scheduler" where
  "Scheduler_Start s = s\<lparr>started := started s @ map fst (tasks s)\<rparr>"

text \<open>The last loop of \<open>Scheduler.Stop\<close>: it calls \<open>Stop\<close> on every registered task.\<close>

fun stopTasks ::
    "(string \<times> AWSInstanceSyncTask) list \<Rightarrow> event list
      \<Rightarrow> ((string \<times> AWSInstanceSyncTask) list \<times> event list) option" where
  "stopTasks [] evs = Some ([], evs)"
| "stopTasks ((name, task) # rest) evs =
     (case AWSInstanceSyncTask_Stop task of
        None \<Rightarrow> None
      | Some task' \<Rightarrow>
          (case stopTasks rest (evs @ [StopHookCalled name]) of
             None \<Rightarrow> None
           | Some (ts, evs') \<Rightarrow> Some ((name, task') # ts, evs')))"

text \<open>\<open>Scheduler.Stop\<close>; \<open>None\<close> when a stop hook panics.\<close>

definition Scheduler_Stop :: "Scheduler \<Rightarrow> (Scheduler \<times> event list) option" where
  "Scheduler_Stop s =
     (let s1 = s\<lparr>cancelled := True\<rparr>;
          returned = map TaskReturned (started s1);
          s2 = s1\<lparr>started := []\<rparr>
      in case stopTasks (tasks s2) ([CancelRaised] @ returned @ [WaitReturned]) of
           None \<Rightarrow> None
         | Some (ts, evs) \<Rightarrow> Some (s2\<lparr>tasks := ts\<rparr>, evs))"

section \<open>Predicates used in the statements\<close>

text \<open>Every row of the table that carries the uuid satisfies \<open>P\<close>.\<close>

definition allWithUUID :: "string \<Rightarrow> (V2RayInstance \<Rightarrow> bool) \<Rightarrow> V2RayInstance list \<Rightarrow> bool" where
  "allWithUUID uuid P t = list_all (\<lambda>r. UUID r = uuid \<longrightarrow> P r) t"


text \<open>
  The row that \<open>Repository.Create\<close> stores for the struct literal of \<open>CreateInstance\<close>
  (status pending, not deleted, no EC2 id yet), with the id the database assigns.
\<close>

text \<open>
  The answer to a \<open>DescribeInstances\<close> request shows the instance absent or terminated.
\<close>

definition gone :: "describe_result \<Rightarrow> bool" where
  "gone r =
     (case r of
        DescribeError \<Rightarrow> False
      | Reservations rs \<Rightarrow>
          (case first_instance rs of
             None \<Rightarrow> True
           | Some i \<Rightarrow> StateName i = InstanceStateNameTerminated))"

definition pendingRow :: "int \<Rightarrow> string \<Rightarrow> string \<Rightarrow> V2RayInstance" where
  "pendingRow newid uuid region =
     \<lparr>ID = newid, UUID = uuid, EC2ID = [], EC2Region = region, EC2RegionName = [],
      EC2PublicIP = [], Status = StatusPending, DirectLink = [], RelayLink = [],
      IsDeleted = False\<rparr>"

section \<open>Facts about the store\<close>

lemma exec_no_faults: "faults d = [] \<Longrightarrow> exec d = (True, d)"
  by (simp add: exec_def)

lemma exec_rows: "rows (snd (exec d)) = rows d"
  by (simp add: exec_def split: list.splits)

lemma find_Some_active:
  "find (activeIn region) xs = Some r \<Longrightarrow> r \<in> set xs \<and> activeIn region r"
  by (induction xs) (auto split: if_splits)

lemma find_active_exists:
  "r \<in> set xs \<Longrightarrow> activeIn region r \<Longrightarrow> \<exists>r'. find (activeIn region) xs = Some r'"
  by (induction xs) auto

lemma filter_active_pos:
  "r \<in> set xs \<Longrightarrow> activeIn region r \<Longrightarrow> 0 < length (filter (activeIn region) xs)"
  by (induction xs) auto

lemma LockTable_ok: "faults d = [] \<Longrightarrow> Repository_LockTable d = (None, d)"
  by (simp add: Repository_LockTable_def exec_no_faults)

lemma UnlockTable_ok: "faults d = [] \<Longrightarrow> Repository_UnlockTable d = (None, d)"
  by (simp add: Repository_UnlockTable_def exec_no_faults)

lemma Check_ok:
  "faults d = [] \<Longrightarrow>
   Repository_CheckRegionHasActiveInstance d region =
     (Inr (0 < length (filter (activeIn region) (rows d))), d)"
  by (simp add: Repository_CheckRegionHasActiveInstance_def exec_no_faults)

lemma GetRegionActive_ok:
  "faults d = [] \<Longrightarrow>
   Repository_GetRegionActiveInstance d region =
     (case find (activeIn region) (rows d) of None \<Rightarrow> (Inl ErrNoRows, d) | Some r \<Rightarrow> (Inr r, d))"
  by (simp add: Repository_GetRegionActiveInstance_def exec_no_faults)

text \<open>
  The statements of the store in terms of \<open>executes\<close>: what each returns and leaves when
  the store executes it and when it does not.
\<close>

lemma exec_executes: "exec d = (executes 0 d, advance (Suc 0) d)"
  by (cases "faults d") (simp_all add: exec_def executes_def advance_def)

lemma advance_advance: "advance j (advance k d) = advance (k + j) d"
  by (simp add: advance_def add.commute)

lemma executes_advance: "executes n (advance k d) = executes (k + n) d"
  by (cases "k + n < length (faults d)") (auto simp add: executes_def advance_def)

lemma rows_advance: "rows (advance k d) = rows d"
  by (simp add: advance_def)

lemma advance_rows: "advance k (d\<lparr>rows := t\<rparr>) = (advance k d)\<lparr>rows := t\<rparr>"
  by (simp add: advance_def)

lemma executes_rows: "executes n (d\<lparr>rows := t\<rparr>) = executes n d"
  by (simp add: executes_def)

lemma LockTable_executes:
  "Repository_LockTable d =
     (if executes 0 d then (None, advance (Suc 0) d) else (Some StatementFailed, advance (Suc 0) d))"
  by (simp add: Repository_LockTable_def exec_executes)

lemma UnlockTable_executes: "snd (Repository_UnlockTable d) = advance (Suc 0) d"
  by (simp add: Repository_UnlockTable_def exec_executes)

lemma Check_executes:
  "executes 0 d \<Longrightarrow>
   Repository_CheckRegionHasActiveInstance d region =
     (Inr (0 < length (filter (activeIn region) (rows d))), advance (Suc 0) d)"
  by (simp add: Repository_CheckRegionHasActiveInstance_def exec_executes rows_advance)

lemma Create_executes:
  "executes 0 d \<Longrightarrow>
   Repository_Create d inst =
     (Inr (int (length (rows d)) + 1),
      (advance (Suc 0) d)\<lparr>rows := rows d @
        [\<lparr>ID = int (length (rows d)) + 1, UUID = UUID inst, EC2ID = EC2ID inst,
          EC2Region = EC2Region inst, EC2RegionName = [], EC2PublicIP = [],
          Status = Status inst, DirectLink = [], RelayLink = [], IsDeleted = IsDeleted inst\<rparr>]\<rparr>)"
  by (simp add: Repository_Create_def exec_executes Let_def rows_advance)

lemma List_executes:
  "executes 0 d \<Longrightarrow>
   Repository_List d = (Inr (rev (filter (\<lambda>r. \<not> IsDeleted r) (rows d))), advance (Suc 0) d)"
  by (simp add: Repository_List_def exec_executes rows_advance)

lemma Delete_executes:
  "Repository_Delete d uuid =
     (if executes 0 d
      then (None, (advance (Suc 0) d)\<lparr>rows := map (\<lambda>r. if UUID r = uuid
                                     then r\<lparr>Status := StatusDeleted, IsDeleted := True\<rparr>
                                     else r) (rows d)\<rparr>)
      else (Some StatementFailed, advance (Suc 0) d))"
  by (simp add: Repository_Delete_def exec_executes rows_advance)

lemma UpdateStatus_executes:
  "Repository_UpdateStatus d uuid status =
     (if executes 0 d
      then (None, (advance (Suc 0) d)\<lparr>rows := map (\<lambda>r. if UUID r = uuid then r\<lparr>Status := status\<rparr> else r) (rows d)\<rparr>)
      else (Some StatementFailed, advance (Suc 0) d))"
  by (simp add: Repository_UpdateStatus_def exec_executes rows_advance)

lemma GetByUUID_executes:
  "Repository_GetByUUID d uuid =
     (if executes 0 d
      then (case find (\<lambda>r. UUID r = uuid \<and> \<not> IsDeleted r) (rows d) of
              None \<Rightarrow> (Inl ErrNoRows, advance (Suc 0) d)
            | Some r \<Rightarrow> (Inr r, advance (Suc 0) d))
      else (Inl StatementFailed, advance (Suc 0) d))"
  by (simp add: Repository_GetByUUID_def exec_executes rows_advance split: option.split)

lemma softDelete_all:
  "allWithUUID u (\<lambda>r. Status r = StatusDeleted \<and> IsDeleted r)
     (map (\<lambda>r. if UUID r = u then r\<lparr>Status := StatusDeleted, IsDeleted := True\<rparr> else r) t)"
  unfolding allWithUUID_def by (induction t) simp_all

section \<open>CreateInstance: the existing instance, the duplicate, the response\<close>

lemma CreateInstance_existing:
  assumes "faults d = []" and "find (activeIn region) (rows d) = Some r"
  shows "V2RayService_CreateInstance concurrent newUUID d region = (Inr (UUID r), d, None)"
proof -
  from assms(2) have "r \<in> set (rows d)" "activeIn region r"
    using find_Some_active by blast+
  then have "0 < length (filter (activeIn region) (rows d))"
    by (rule filter_active_pos)
  with assms show ?thesis
    by (simp add: V2RayService_CreateInstance_def CreateInstance_locked_def LockTable_ok
        UnlockTable_ok Check_ok GetRegionActive_ok)
qed

lemma duplicateActive_count:
  "c \<le> 1 \<Longrightarrow> duplicateActive region xs c = (1 < c + length (filter (activeIn region) xs))"
  by (induction xs arbitrary: c) auto

lemma active_count_List:
  "length (filter (activeIn region) (rev (filter (\<lambda>r. \<not> IsDeleted r) xs))) =
   length (filter (activeIn region) xs)"
proof -
  have "filter (activeIn region) (filter (\<lambda>r. \<not> IsDeleted r) xs) = filter (activeIn region) xs"
    by (induction xs) (auto simp: activeIn_def)
  then show ?thesis
    by (metis length_rev rev_filter)
qed

lemma Create_ok:
  "faults d = [] \<Longrightarrow>
   Repository_Create d inst =
     (Inr (int (length (rows d)) + 1),
      d\<lparr>rows := rows d @
        [\<lparr>ID = int (length (rows d)) + 1, UUID = UUID inst, EC2ID = EC2ID inst,
          EC2Region = EC2Region inst, EC2RegionName = [], EC2PublicIP = [],
          Status = Status inst, DirectLink = [], RelayLink = [], IsDeleted = IsDeleted inst\<rparr>]\<rparr>)"
  by (simp add: Repository_Create_def exec_no_faults Let_def)

lemma List_ok:
  "faults d = [] \<Longrightarrow>
   Repository_List d = (Inr (rev (filter (\<lambda>r. \<not> IsDeleted r) (rows d))), d)"
  by (simp add: Repository_List_def exec_no_faults)

lemma Delete_ok:
  "faults d = [] \<Longrightarrow>
   Repository_Delete d uuid =
     (None, d\<lparr>rows := map (\<lambda>r. if UUID r = uuid
                                     then r\<lparr>Status := StatusDeleted, IsDeleted := True\<rparr>
                                     else r) (rows d)\<rparr>)"
  by (simp add: Repository_Delete_def exec_no_faults)

lemma find_append_None:
  "find P xs = None \<Longrightarrow> find P (xs @ ys) = find P ys"
  by (induction xs) (auto split: if_splits)

lemma no_active_count:
  "\<not> (\<exists>r \<in> set xs. activeIn region r) \<Longrightarrow> length (filter (activeIn region) xs) = 0"
  by (induction xs) auto

lemma CreateInstance_fresh:
  assumes "faults d = []" and "\<not> (\<exists>r \<in> set (rows d). activeIn region r)"
  shows "V2RayService_CreateInstance concurrent newUUID d region =
     (let t = concurrent (rows d @ [pendingRow (int (length (rows d)) + 1) newUUID region]) in
      if 1 < length (filter (activeIn region) t)
      then (Inl RegionAlreadyActive,
            d\<lparr>rows := map (\<lambda>r. if UUID r = newUUID
                                    then r\<lparr>Status := StatusDeleted, IsDeleted := True\<rparr>
                                    else r) t\<rparr>, None)
      else (Inr newUUID, d\<lparr>rows := t\<rparr>, Some (int (length (rows d)) + 1, region, newUUID)))"
  using assms
  by (simp add: V2RayService_CreateInstance_def CreateInstance_locked_def LockTable_ok
      UnlockTable_ok Check_ok Create_ok List_ok Delete_ok no_active_count Let_def
      duplicateActive_count active_count_List pendingRow_def)


lemma CreateInstance_duplicate_any_store:
  assumes "executes 0 d" and "executes 1 d" and "executes 2 d" and "executes 3 d"
    and "\<not> (\<exists>r \<in> set (rows d). activeIn region r)"
    and "1 < length (filter (activeIn region)
               (concurrent (rows d @ [pendingRow (int (length (rows d)) + 1) newUUID region])))"
  shows "V2RayService_CreateInstance concurrent newUUID d region =
           (Inl RegionAlreadyActive,
            (advance 6 d)\<lparr>rows :=
               (if executes 4 d
                then map (\<lambda>r. if UUID r = newUUID
                               then r\<lparr>Status := StatusDeleted, IsDeleted := True\<rparr>
                               else r)
                       (concurrent (rows d @ [pendingRow (int (length (rows d)) + 1) newUUID region]))
                else concurrent (rows d @ [pendingRow (int (length (rows d)) + 1) newUUID region]))\<rparr>,
            None)"
  using assms
  by (simp add: V2RayService_CreateInstance_def CreateInstance_locked_def LockTable_executes
      UnlockTable_executes Check_executes Create_executes List_executes Delete_executes
      no_active_count Let_def executes_advance executes_rows advance_advance advance_rows
      rows_advance duplicateActive_count active_count_List pendingRow_def eval_nat_numeral
      del: map_map)

lemma LockTable_cases:
  "rows (snd (Repository_LockTable d)) = rows d \<and>
   (fst (Repository_LockTable d) = Some StatementFailed \<or> fst (Repository_LockTable d) = None)"
proof -
  obtain ok d1 where e: "exec d = (ok, d1)" by (cases "exec d")
  with exec_rows [of d] have "rows d1 = rows d" by simp
  then show ?thesis
    by (cases ok) (simp_all add: Repository_LockTable_def e)
qed

lemma UnlockTable_rows: "rows (snd (Repository_UnlockTable d)) = rows d"
proof -
  obtain ok d1 where e: "exec d = (ok, d1)" by (cases "exec d")
  with exec_rows [of d] have "rows d1 = rows d" by simp
  then show ?thesis
    by (cases ok) (simp_all add: Repository_UnlockTable_def e)
qed

lemma Check_cases:
  "rows (snd (Repository_CheckRegionHasActiveInstance d region)) = rows d \<and>
   (fst (Repository_CheckRegionHasActiveInstance d region) = Inl StatementFailed \<or>
    fst (Repository_CheckRegionHasActiveInstance d region) =
      Inr (0 < length (filter (activeIn region) (rows d))))"
proof -
  obtain ok d1 where e: "exec d = (ok, d1)" by (cases "exec d")
  with exec_rows [of d] have "rows d1 = rows d" by simp
  then show ?thesis
    by (cases ok) (simp_all add: Repository_CheckRegionHasActiveInstance_def e)
qed

lemma GetRegionActive_cases:
  "rows (snd (Repository_GetRegionActiveInstance d region)) = rows d \<and>
   (fst (Repository_GetRegionActiveInstance d region) = Inl StatementFailed \<or>
    fst (Repository_GetRegionActiveInstance d region) =
      (case find (activeIn region) (rows d) of None \<Rightarrow> Inl ErrNoRows | Some r \<Rightarrow> Inr r))"
proof -
  obtain ok d1 where e: "exec d = (ok, d1)" by (cases "exec d")
  with exec_rows [of d] have "rows d1 = rows d" by simp
  then show ?thesis
    by (cases ok) (simp_all add: Repository_GetRegionActiveInstance_def e split: option.split)
qed

lemma CreateInstance_locked_existing_any_store:
  assumes "find (activeIn region) (rows d) = Some r'"
  shows "rows (fst (snd (CreateInstance_locked concurrent newUUID d region))) = rows d \<and>
         snd (snd (CreateInstance_locked concurrent newUUID d region)) = None \<and>
         (fst (CreateInstance_locked concurrent newUUID d region) = Inl FailedToCheckRegion \<or>
          fst (CreateInstance_locked concurrent newUUID d region) = Inl FailedToGetExisting \<or>
          fst (CreateInstance_locked concurrent newUUID d region) = Inr (UUID r'))"
proof -
  obtain c d1 where c: "Repository_CheckRegionHasActiveInstance d region = (c, d1)"
    by (cases "Repository_CheckRegionHasActiveInstance d region")
  from assms have pos: "0 < length (filter (activeIn region) (rows d))"
    using find_Some_active filter_active_pos by blast
  from Check_cases [of d region] c pos
  have r1: "rows d1 = rows d" and cc: "c = Inl StatementFailed \<or> c = Inr True"
    by simp_all
  obtain g d2 where g: "Repository_GetRegionActiveInstance d1 region = (g, d2)"
    by (cases "Repository_GetRegionActiveInstance d1 region")
  from GetRegionActive_cases [of d1 region] g r1 assms
  have r2: "rows d2 = rows d" and gg: "g = Inl StatementFailed \<or> g = Inr r'"
    by simp_all
  from cc show ?thesis
  proof
    assume "c = Inl StatementFailed"
    then show ?thesis by (simp add: CreateInstance_locked_def c r1)
  next
    assume ct: "c = Inr True"
    from gg show ?thesis
      by (elim disjE) (simp_all add: CreateInstance_locked_def c ct g r2)
  qed
qed

lemma CreateInstance_existing_any_store:
  assumes "find (activeIn region) (rows d) = Some r'"
  shows "rows (fst (snd (V2RayService_CreateInstance concurrent newUUID d region))) = rows d \<and>
         snd (snd (V2RayService_CreateInstance concurrent newUUID d region)) = None \<and>
         (fst (V2RayService_CreateInstance concurrent newUUID d region) = Inl FailedToLockTable \<or>
          fst (V2RayService_CreateInstance concurrent newUUID d region) = Inl FailedToCheckRegion \<or>
          fst (V2RayService_CreateInstance concurrent newUUID d region) = Inl FailedToGetExisting \<or>
          fst (V2RayService_CreateInstance concurrent newUUID d region) = Inr (UUID r'))"
proof -
  obtain k d1 where k: "Repository_LockTable d = (k, d1)"
    by (cases "Repository_LockTable d")
  from LockTable_cases [of d] k have r1: "rows d1 = rows d"
    and kk: "k = Some StatementFailed \<or> k = None" by simp_all
  from kk show ?thesis
  proof
    assume "k = Some StatementFailed"
    then show ?thesis by (simp add: V2RayService_CreateInstance_def k r1)
  next
    assume kn: "k = None"
    obtain res d2 l where b: "CreateInstance_locked concurrent newUUID d1 region = (res, d2, l)"
      by (cases "CreateInstance_locked concurrent newUUID d1 region")
    from assms r1 have "find (activeIn region) (rows d1) = Some r'" by simp
    from CreateInstance_locked_existing_any_store [OF this, of concurrent newUUID] b r1
    have "rows d2 = rows d" "l = None"
      "res = Inl FailedToCheckRegion \<or> res = Inl FailedToGetExisting \<or> res = Inr (UUID r')"
      by simp_all
    then show ?thesis
      by (auto simp: V2RayService_CreateInstance_def k kn b UnlockTable_rows)
  qed
qed

lemma only_active:
  assumes "length (filter (activeIn region) xs) = 1"
    and "r \<in> set xs" and "activeIn region r" and "r' \<in> set xs" and "activeIn region r'"
  shows "r' = r"
proof -
  from assms(1) obtain x where x: "filter (activeIn region) xs = [x]"
    by (cases "filter (activeIn region) xs") simp_all
  from assms(2,3) have "r \<in> set (filter (activeIn region) xs)" by simp
  moreover from assms(4,5) have "r' \<in> set (filter (activeIn region) xs)" by simp
  ultimately show ?thesis unfolding x by simp
qed

text \<open>
  Claim C1. Whatever the store does, when an active row of the region exists the call
  inserts no row and starts no workflow, and it returns either the uuid of the oldest
  such row or one of the three errors that wrap a failed statement (lock, check,
  lookup). Provided the store executes every statement, when a non-deleted row of the
  region with status pending, creating or running exists, \<open>CreateInstance\<close> returns the
  uuid of such a row, leaves the table as it was and starts no workflow. And whatever a
  first call returned (the uuid of an existing row or of the row it has just inserted),
  a second call made on the table the first one left returns the same uuid and inserts
  nothing. When the region has exactly one active row, as invariant I1 demands, the
  uuid returned is the uuid of that row.
\<close>

theorem CreateInstance_idempotent:
  "(find (activeIn region) (rows d) = Some r' \<longrightarrow>
      rows (fst (snd (V2RayService_CreateInstance concurrent newUUID d region))) = rows d \<and>
      snd (snd (V2RayService_CreateInstance concurrent newUUID d region)) = None \<and>
      (fst (V2RayService_CreateInstance concurrent newUUID d region) = Inl FailedToLockTable \<or>
       fst (V2RayService_CreateInstance concurrent newUUID d region) = Inl FailedToCheckRegion \<or>
       fst (V2RayService_CreateInstance concurrent newUUID d region) = Inl FailedToGetExisting \<or>
       fst (V2RayService_CreateInstance concurrent newUUID d region) = Inr (UUID r')))
   \<and> (faults d = [] \<and> r \<in> set (rows d) \<and> activeIn region r \<longrightarrow>
        (\<exists>r'. r' \<in> set (rows d) \<and> activeIn region r' \<and>
              V2RayService_CreateInstance concurrent newUUID d region =
                (Inr (UUID r'), d, None)))
   \<and> (faults d = [] \<and>
      V2RayService_CreateInstance (\<lambda>t. t) newUUID d region = (Inr u, dn, l) \<longrightarrow>
        V2RayService_CreateInstance concurrent' newUUID' dn region = (Inr u, dn, None))
   \<and> (faults d = [] \<and> r \<in> set (rows d) \<and> activeIn region r \<and>
      length (filter (activeIn region) (rows d)) = 1 \<longrightarrow>
        V2RayService_CreateInstance concurrent newUUID d region = (Inr (UUID r), d, None))"
proof (intro conjI impI)
  assume "find (activeIn region) (rows d) = Some r'"
  from CreateInstance_existing_any_store [OF this, of concurrent newUUID]
  show "rows (fst (snd (V2RayService_CreateInstance concurrent newUUID d region))) = rows d"
    and "snd (snd (V2RayService_CreateInstance concurrent newUUID d region)) = None"
    and "fst (V2RayService_CreateInstance concurrent newUUID d region) = Inl FailedToLockTable \<or>
       fst (V2RayService_CreateInstance concurrent newUUID d region) = Inl FailedToCheckRegion \<or>
       fst (V2RayService_CreateInstance concurrent newUUID d region) = Inl FailedToGetExisting \<or>
       fst (V2RayService_CreateInstance concurrent newUUID d region) = Inr (UUID r')"
    by blast+
next
  assume a: "faults d = [] \<and> r \<in> set (rows d) \<and> activeIn region r \<and>
      length (filter (activeIn region) (rows d)) = 1"
  then have nf: "faults d = []" by simp
  from a obtain x where f: "find (activeIn region) (rows d) = Some x"
    using find_active_exists by blast
  then have "x \<in> set (rows d) \<and> activeIn region x"
    by (rule find_Some_active)
  with a have "x = r"
    using only_active [of region "rows d" r x] by blast
  with CreateInstance_existing [OF nf f]
  show "V2RayService_CreateInstance concurrent newUUID d region = (Inr (UUID r), d, None)"
    by simp
next
  assume a: "faults d = [] \<and> r \<in> set (rows d) \<and> activeIn region r"
  then have nf: "faults d = []" by simp
  from a obtain x where f: "find (activeIn region) (rows d) = Some x"
    using find_active_exists by blast
  then have "x \<in> set (rows d) \<and> activeIn region x"
    by (rule find_Some_active)
  moreover have "V2RayService_CreateInstance concurrent newUUID d region = (Inr (UUID x), d, None)"
    using nf f by (rule CreateInstance_existing)
  ultimately show "\<exists>r'. r' \<in> set (rows d) \<and> activeIn region r' \<and>
      V2RayService_CreateInstance concurrent newUUID d region = (Inr (UUID r'), d, None)"
    by blast
next
  assume a: "faults d = [] \<and>
      V2RayService_CreateInstance (\<lambda>t. t) newUUID d region = (Inr u, dn, l)"
  then have nf: "faults d = []"
    and c: "V2RayService_CreateInstance (\<lambda>t. t) newUUID d region = (Inr u, dn, l)"
    by simp_all
  show "V2RayService_CreateInstance concurrent' newUUID' dn region = (Inr u, dn, None)"
  proof (cases "\<exists>r \<in> set (rows d). activeIn region r")
    case True
    then obtain x where f: "find (activeIn region) (rows d) = Some x"
      using find_active_exists by blast
    have e: "V2RayService_CreateInstance cc nn d region = (Inr (UUID x), d, None)" for cc nn
      using nf f by (rule CreateInstance_existing)
    from c e have "u = UUID x" "dn = d" by simp_all
    with e show ?thesis by simp
  next
    case False
    let ?row = "pendingRow (int (length (rows d)) + 1) newUUID region"
    have cnt: "length (filter (activeIn region) (rows d @ [?row])) = 1"
      using False by (simp add: no_active_count) (simp add: activeIn_def pendingRow_def)
    from c have u: "u = newUUID" and dn: "dn = d\<lparr>rows := rows d @ [?row]\<rparr>"
      using CreateInstance_fresh [OF nf False, of "\<lambda>t. t" newUUID] cnt
      by (auto simp: Let_def)
    have none: "find (activeIn region) (rows d) = None"
      using False by (simp add: find_None_iff)
    have "find (activeIn region) (rows dn) = Some ?row"
      using none by (simp add: dn find_append_None) (simp add: activeIn_def pendingRow_def)
    moreover have "faults dn = []" using nf dn by simp
    ultimately have "V2RayService_CreateInstance concurrent' newUUID' dn region =
        (Inr (UUID ?row), dn, None)"
      by (rule CreateInstance_existing [rotated])
    then show ?thesis by (simp add: u pendingRow_def)
  qed
qed

text \<open>
  Claim C7, as amended. The statements of a call that inserts are, in order: 0 the table
  lock, 1 the check of the region, 2 the insert, 3 the re-scan, 4 the compensating
  delete, 5 the unlock. When the store executes the first four, no active row of the
  region exists at the check, so that a pending row is inserted, and the table that the
  re-scan reads (after whatever other writers did) holds more than one active row of
  the region, the call returns the error \<open>RegionAlreadyActive\<close> and starts no workflow.
  The service does not look at the result of the compensating \<open>Delete\<close>: when the store
  executes it, every row carrying the new uuid is soft-deleted (status deleted,
  \<open>IsDeleted\<close> set); when the store rejects it, the table stays as the re-scan read it,
  the new row pending and not deleted.
\<close>

theorem CreateInstance_duplicate_compensated:
  assumes "executes 0 d" and "executes 1 d" and "executes 2 d" and "executes 3 d"
    and "\<not> (\<exists>r \<in> set (rows d). activeIn region r)"
    and "t = concurrent (rows d @ [pendingRow (int (length (rows d)) + 1) newUUID region])"
    and "1 < length (filter (activeIn region) t)"
    and "V2RayService_CreateInstance concurrent newUUID d region = (res, d', workflow)"
  shows "res = Inl RegionAlreadyActive \<and> workflow = None
    \<and> (executes 4 d \<longrightarrow>
         rows d' = map (\<lambda>r. if UUID r = newUUID
                              then r\<lparr>Status := StatusDeleted, IsDeleted := True\<rparr>
                              else r) t
         \<and> allWithUUID newUUID (\<lambda>r. Status r = StatusDeleted \<and> IsDeleted r) (rows d'))
    \<and> (\<not> executes 4 d \<longrightarrow> rows d' = t)"
proof -
  have "V2RayService_CreateInstance concurrent newUUID d region =
           (Inl RegionAlreadyActive,
            (advance 6 d)\<lparr>rows :=
               (if executes 4 d
                then map (\<lambda>r. if UUID r = newUUID
                               then r\<lparr>Status := StatusDeleted, IsDeleted := True\<rparr>
                               else r) t
                else t)\<rparr>,
            None)"
    using CreateInstance_duplicate_any_store [OF assms(1-5), of concurrent newUUID] assms(6,7)
    by simp
  with assms(8) have r: "res = Inl RegionAlreadyActive" "workflow = None"
    "rows d' = (if executes 4 d
                then map (\<lambda>r. if UUID r = newUUID
                               then r\<lparr>Status := StatusDeleted, IsDeleted := True\<rparr>
                               else r) t
                else t)"
    by auto
  show ?thesis
    using r softDelete_all [of newUUID t] by (simp del: map_map)
qed

text \<open>
  Claim C10. Every success response of the handler has HTTP status 200 and the constant
  status text \<open>pending\<close>, next to the uuid the service returned; in particular when the
  service returned the uuid of an active row that already existed, whatever the status
  of that row (pending, creating or running).
\<close>

theorem CreateInstance_response_pending:
  "(V2RayHandler_CreateInstance concurrent newUUID d req =
       (CreateInstanceResponse code uuid st, d1, l) \<longrightarrow>
      code = 200 \<and> st = ''pending'' \<and>
      (\<exists>region. req = Some region \<and>
         V2RayService_CreateInstance concurrent newUUID d region = (Inr uuid, d1, l)))
   \<and> (faults d = [] \<and> region \<noteq> [] \<and> find (activeIn region) (rows d) = Some r \<longrightarrow>
        V2RayHandler_CreateInstance concurrent newUUID d (Some region) =
          (CreateInstanceResponse 200 (UUID r) ''pending'', d, None))"
proof (rule conjI)
  show "V2RayHandler_CreateInstance concurrent newUUID d req =
       (CreateInstanceResponse code uuid st, d1, l) \<longrightarrow>
      code = 200 \<and> st = ''pending'' \<and>
      (\<exists>region. req = Some region \<and>
         V2RayService_CreateInstance concurrent newUUID d region = (Inr uuid, d1, l))"
    by (auto simp: V2RayHandler_CreateInstance_def
        split: option.splits if_splits prod.splits sum.splits)
next
  show "faults d = [] \<and> region \<noteq> [] \<and> find (activeIn region) (rows d) = Some r \<longrightarrow>
        V2RayHandler_CreateInstance concurrent newUUID d (Some region) =
          (CreateInstanceResponse 200 (UUID r) ''pending'', d, None)"
    by (simp add: V2RayHandler_CreateInstance_def CreateInstance_existing)
qed


text \<open>
  A region whose only record is running: the call returns its uuid. And on an empty
  table, the second of two calls returns the uuid the first one inserted.
\<close>

theorem CreateInstance_idempotent_witness:
  "V2RayService_CreateInstance (\<lambda>t. t) ''u2''
     \<lparr>rows = [\<lparr>ID = 1, UUID = ''u1'', EC2ID = ''i-1'', EC2Region = ''us-east-1'',
                EC2RegionName = [], EC2PublicIP = ''203.0.113.5'', Status = StatusRunning,
                DirectLink = [], RelayLink = [], IsDeleted = False\<rparr>], faults = []\<rparr>
     ''us-east-1'' =
   (Inr ''u1'',
    \<lparr>rows = [\<lparr>ID = 1, UUID = ''u1'', EC2ID = ''i-1'', EC2Region = ''us-east-1'',
                EC2RegionName = [], EC2PublicIP = ''203.0.113.5'', Status = StatusRunning,
                DirectLink = [], RelayLink = [], IsDeleted = False\<rparr>], faults = []\<rparr>,
    None)
   \<and> V2RayService_CreateInstance (\<lambda>t. t) ''u3''
       (fst (snd (V2RayService_CreateInstance (\<lambda>t. t) ''u2'' \<lparr>rows = [], faults = []\<rparr> ''us-east-1'')))
       ''us-east-1'' =
     (Inr ''u2'',
      \<lparr>rows = [\<lparr>ID = 1, UUID = ''u2'', EC2ID = [], EC2Region = ''us-east-1'',
                EC2RegionName = [], EC2PublicIP = [], Status = StatusPending,
                DirectLink = [], RelayLink = [], IsDeleted = False\<rparr>], faults = []\<rparr>,
      None)"
proof -
  let ?row = "\<lparr>ID = 1, UUID = ''u1'', EC2ID = ''i-1'', EC2Region = ''us-east-1'',
                EC2RegionName = [], EC2PublicIP = ''203.0.113.5'', Status = StatusRunning,
                DirectLink = [], RelayLink = [], IsDeleted = False\<rparr>"
  have first: "V2RayService_CreateInstance (\<lambda>t. t) ''u2'' \<lparr>rows = [], faults = []\<rparr> ''us-east-1'' =
      (Inr ''u2'',
       \<lparr>rows = [\<lparr>ID = 1, UUID = ''u2'', EC2ID = [], EC2Region = ''us-east-1'',
                EC2RegionName = [], EC2PublicIP = [], Status = StatusPending,
                DirectLink = [], RelayLink = [], IsDeleted = False\<rparr>], faults = []\<rparr>,
       Some (1, ''us-east-1'', ''u2''))"
    by (simp add: CreateInstance_fresh pendingRow_def activeIn_def)
  show ?thesis
    using CreateInstance_idempotent [where d = "\<lparr>rows = [?row], faults = []\<rparr>" and r = ?row
        and region = "''us-east-1''" and concurrent = "\<lambda>t. t" and newUUID = "''u2''"]
      CreateInstance_idempotent [where d = "\<lparr>rows = [], faults = []\<rparr>"
        and region = "''us-east-1''" and newUUID = "''u2''" and concurrent' = "\<lambda>t. t"
        and newUUID' = "''u3''", THEN conjunct2, THEN conjunct2, THEN conjunct1]
    by (simp add: activeIn_def first)
qed

text \<open>
  Claim C7 as stated fails: another writer inserts an active row of the region between
  insert and re-scan, and the store rejects the compensating delete. The call fails, and
  the row it created is still pending, not deleted, and active in the region.
\<close>

theorem CreateInstance_duplicate_not_compensated:
  "V2RayService_CreateInstance
     (\<lambda>t. t @ [\<lparr>ID = 2, UUID = ''u9'', EC2ID = [], EC2Region = ''r1'', EC2RegionName = [],
                 EC2PublicIP = [], Status = StatusPending, DirectLink = [], RelayLink = [],
                 IsDeleted = False\<rparr>])
     ''u1'' \<lparr>rows = [], faults = [True, True, True, True, False]\<rparr> ''r1'' =
   (Inl RegionAlreadyActive,
    \<lparr>rows = [\<lparr>ID = 1, UUID = ''u1'', EC2ID = [], EC2Region = ''r1'', EC2RegionName = [],
               EC2PublicIP = [], Status = StatusPending, DirectLink = [], RelayLink = [],
               IsDeleted = False\<rparr>,
             \<lparr>ID = 2, UUID = ''u9'', EC2ID = [], EC2Region = ''r1'', EC2RegionName = [],
               EC2PublicIP = [], Status = StatusPending, DirectLink = [], RelayLink = [],
               IsDeleted = False\<rparr>],
     faults = []\<rparr>,
    None)
   \<and> activeIn ''r1'' \<lparr>ID = 1, UUID = ''u1'', EC2ID = [], EC2Region = ''r1'', EC2RegionName = [],
               EC2PublicIP = [], Status = StatusPending, DirectLink = [], RelayLink = [],
               IsDeleted = False\<rparr>"
  by (simp add: V2RayService_CreateInstance_def CreateInstance_locked_def
      Repository_LockTable_def Repository_UnlockTable_def
      Repository_CheckRegionHasActiveInstance_def Repository_Create_def Repository_List_def
      Repository_Delete_def exec_def activeIn_def Let_def)

text \<open>
  A run of the amended claim C7: the same duplicate on a store that executes every
  statement. The new row is soft-deleted and the call fails.
\<close>

theorem CreateInstance_duplicate_compensated_witness:
  "V2RayService_CreateInstance
     (\<lambda>t. t @ [\<lparr>ID = 2, UUID = ''u9'', EC2ID = [], EC2Region = ''r1'', EC2RegionName = [],
                 EC2PublicIP = [], Status = StatusPending, DirectLink = [], RelayLink = [],
                 IsDeleted = False\<rparr>])
     ''u1'' \<lparr>rows = [], faults = []\<rparr> ''r1'' =
   (Inl RegionAlreadyActive,
    \<lparr>rows = [\<lparr>ID = 1, UUID = ''u1'', EC2ID = [], EC2Region = ''r1'', EC2RegionName = [],
               EC2PublicIP = [], Status = StatusDeleted, DirectLink = [], RelayLink = [],
               IsDeleted = True\<rparr>,
             \<lparr>ID = 2, UUID = ''u9'', EC2ID = [], EC2Region = ''r1'', EC2RegionName = [],
               EC2PublicIP = [], Status = StatusPending, DirectLink = [], RelayLink = [],
               IsDeleted = False\<rparr>],
     faults = []\<rparr>,
    None)
   \<and> allWithUUID ''u1'' (\<lambda>r. Status r = StatusDeleted \<and> IsDeleted r)
        [\<lparr>ID = 1, UUID = ''u1'', EC2ID = [], EC2Region = ''r1'', EC2RegionName = [],
               EC2PublicIP = [], Status = StatusDeleted, DirectLink = [], RelayLink = [],
               IsDeleted = True\<rparr>,
             \<lparr>ID = 2, UUID = ''u9'', EC2ID = [], EC2Region = ''r1'', EC2RegionName = [],
               EC2PublicIP = [], Status = StatusPending, DirectLink = [], RelayLink = [],
               IsDeleted = False\<rparr>]"
proof -
  let ?c = "\<lambda>t. t @ [\<lparr>ID = 2, UUID = ''u9'', EC2ID = [], EC2Region = ''r1'', EC2RegionName = [],
                 EC2PublicIP = [], Status = StatusPending, DirectLink = [], RelayLink = [],
                 IsDeleted = False\<rparr>]"
  let ?d = "\<lparr>rows = [], faults = []\<rparr>"
  have run: "V2RayService_CreateInstance ?c ''u1'' ?d ''r1'' =
   (Inl RegionAlreadyActive,
    \<lparr>rows = [\<lparr>ID = 1, UUID = ''u1'', EC2ID = [], EC2Region = ''r1'', EC2RegionName = [],
               EC2PublicIP = [], Status = StatusDeleted, DirectLink = [], RelayLink = [],
               IsDeleted = True\<rparr>,
             \<lparr>ID = 2, UUID = ''u9'', EC2ID = [], EC2Region = ''r1'', EC2RegionName = [],
               EC2PublicIP = [], Status = StatusPending, DirectLink = [], RelayLink = [],
               IsDeleted = False\<rparr>],
     faults = []\<rparr>,
    None)"
    by (simp add: V2RayService_CreateInstance_def CreateInstance_locked_def
      Repository_LockTable_def Repository_UnlockTable_def
      Repository_CheckRegionHasActiveInstance_def Repository_Create_def Repository_List_def
      Repository_Delete_def exec_def activeIn_def Let_def)
  from CreateInstance_duplicate_compensated [where d = ?d and region = "''r1''"
      and concurrent = ?c and newUUID = "''u1''", OF _ _ _ _ _ refl _ run] run
  show ?thesis
    by (simp add: executes_def activeIn_def pendingRow_def)
qed

text \<open>
  The region already has a running record: the response carries its uuid and the status
  text pending.
\<close>

theorem CreateInstance_response_pending_witness:
  "V2RayHandler_CreateInstance (\<lambda>t. t) ''u2''
     \<lparr>rows = [\<lparr>ID = 1, UUID = ''u1'', EC2ID = ''i-1'', EC2Region = ''us-east-1'',
                EC2RegionName = [], EC2PublicIP = ''203.0.113.5'', Status = StatusRunning,
                DirectLink = [], RelayLink = [], IsDeleted = False\<rparr>], faults = []\<rparr>
     (Some ''us-east-1'') =
   (CreateInstanceResponse 200 ''u1'' ''pending'',
    \<lparr>rows = [\<lparr>ID = 1, UUID = ''u1'', EC2ID = ''i-1'', EC2Region = ''us-east-1'',
                EC2RegionName = [], EC2PublicIP = ''203.0.113.5'', Status = StatusRunning,
                DirectLink = [], RelayLink = [], IsDeleted = False\<rparr>], faults = []\<rparr>,
    None)"
  using CreateInstance_response_pending [of "\<lambda>t. t" "''u2''"
      "\<lparr>rows = [\<lparr>ID = 1, UUID = ''u1'', EC2ID = ''i-1'', EC2Region = ''us-east-1'',
                EC2RegionName = [], EC2PublicIP = ''203.0.113.5'', Status = StatusRunning,
                DirectLink = [], RelayLink = [], IsDeleted = False\<rparr>], faults = []\<rparr>"
      _ _ _ _ _ _ "''us-east-1''"]
  by (simp add: activeIn_def)


section \<open>The creation workflow\<close>

text \<open>
  The statements of the store when no fault is scheduled.
\<close>

lemma UpdateStatus_ok:
  "faults d = [] \<Longrightarrow>
   Repository_UpdateStatus d uuid status =
     (None, d\<lparr>rows := map (\<lambda>r. if UUID r = uuid then r\<lparr>Status := status\<rparr> else r) (rows d)\<rparr>)"
  by (simp add: Repository_UpdateStatus_def exec_no_faults)

lemma UpdateStatusAndIP_ok:
  "faults d = [] \<Longrightarrow>
   Repository_UpdateStatusAndIP d uuid status publicIP =
     (None, d\<lparr>rows := map (\<lambda>r. if UUID r = uuid
                                     then r\<lparr>Status := status, EC2PublicIP := publicIP\<rparr>
                                     else r) (rows d)\<rparr>)"
  by (simp add: Repository_UpdateStatusAndIP_def exec_no_faults)

lemma GetByUUID_ok:
  "faults d = [] \<Longrightarrow>
   Repository_GetByUUID d uuid =
     (case find (\<lambda>r. UUID r = uuid \<and> \<not> IsDeleted r) (rows d) of
        None \<Rightarrow> (Inl ErrNoRows, d)
      | Some r \<Rightarrow> (Inr r, d))"
  by (simp add: Repository_GetByUUID_def exec_no_faults)

lemma Update_ok:
  "faults d = [] \<Longrightarrow>
   Repository_Update d inst =
     (None,
      d\<lparr>rows := map (\<lambda>r. if UUID r = UUID inst
                            then r\<lparr>EC2ID := EC2ID inst, EC2Region := EC2Region inst,
                                   EC2PublicIP := EC2PublicIP inst, Status := Status inst,
                                   DirectLink := DirectLink inst, RelayLink := RelayLink inst,
                                   IsDeleted := IsDeleted inst\<rparr>
                            else r) (rows d)\<rparr>)"
  by (simp add: Repository_Update_def exec_no_faults)

lemma setStatus_all:
  "allWithUUID u (\<lambda>r. Status r = s)
     (map (\<lambda>r. if UUID r = u then r\<lparr>Status := s\<rparr> else r) t)"
  unfolding allWithUUID_def by (induction t) simp_all

lemma setStatusIP_all:
  "allWithUUID u (\<lambda>r. Status r = s \<and> EC2PublicIP r = ip)
     (map (\<lambda>r. if UUID r = u then r\<lparr>Status := s, EC2PublicIP := ip\<rparr> else r) t)"
  unfolding allWithUUID_def by (induction t) simp_all

lemma createInstanceAsync_ok_case:
  assumes "faults d = []"
  shows "case V2RayService_createInstanceAsync e d instanceID region u of
           (out, d', calls) \<Rightarrow>
             count_list calls CallCreateInstance = 1 \<and>
             (case out of
                Created ip \<Rightarrow> allWithUUID u (\<lambda>r. Status r = StatusRunning \<and> EC2PublicIP r = ip) (rows d')
              | _ \<Rightarrow> allWithUUID u (\<lambda>r. Status r = StatusError) (rows d'))"
  using assms
  by (simp add: V2RayService_createInstanceAsync_def Let_def UpdateStatus_ok GetByUUID_ok
      Update_ok UpdateStatusAndIP_ok setStatus_all setStatusIP_all
      del: map_map split: option.split sum.split)

lemma createInstanceAsync_calls_le:
  "V2RayService_createInstanceAsync e d instanceID region u = (out, d', calls) \<Longrightarrow>
   count_list calls CallCreateInstance \<le> 1"
  unfolding V2RayService_createInstanceAsync_def Let_def
  by (simp split: prod.splits option.splits sum.splits) auto


lemma createInstanceAsync_calls_distinct:
  "V2RayService_createInstanceAsync e d instanceID region u = (out, d', calls) \<Longrightarrow>
   distinct calls"
  unfolding V2RayService_createInstanceAsync_def Let_def
  by (simp split: prod.splits option.splits sum.splits) auto

text \<open>
  The bound of the polling loops: the configured seconds as nanoseconds when the product
  fits 64 bits, and a value that wraps around, here to a negative one, when it does not.
  A bound of five seconds or less is exceeded at the first reading of the clock.
\<close>

lemma waitBound_seconds:
  "0 \<le> InstanceWaitTimeout e \<Longrightarrow> InstanceWaitTimeout e \<le> 9223372036 \<Longrightarrow>
   waitBound e = InstanceWaitTimeout e * 1000000000"
  by (simp add: waitBound_def wrap64_def)

lemma waitBound_wraps:
  "waitBound (e\<lparr>InstanceWaitTimeout := 9223372037\<rparr>) = - 9223372036709551616"
  by (simp add: waitBound_def wrap64_def)

lemma waitRunning_times_out_at_once:
  assumes "bound \<le> 5000000000"
    and "observedState (describe 0) \<noteq> Some InstanceStateNameRunning"
    and "observedState (describe 0) \<noteq> Some InstanceStateNameTerminated"
    and "observedState (describe 0) \<noteq> Some InstanceStateNameShuttingDown"
  shows "waitRunning describe latency bound 0 = Some WaitTimeout"
  using assms by (simp add: waitRunning.simps [of describe latency bound 0] since_def)

lemma find_setStatus:
  "find (\<lambda>r. UUID r = u \<and> \<not> IsDeleted r)
     (map (\<lambda>r. if UUID r = u then r\<lparr>Status := s\<rparr> else r) t) =
   map_option (\<lambda>r. r\<lparr>Status := s\<rparr>) (find (\<lambda>r. UUID r = u \<and> \<not> IsDeleted r) t)"
  by (induction t) simp_all

lemma waitRunning_never:
  assumes "\<And>j. observedState (describe j) \<noteq> Some InstanceStateNameRunning \<and>
                observedState (describe j) \<noteq> Some InstanceStateNameTerminated \<and>
                observedState (describe j) \<noteq> Some InstanceStateNameShuttingDown"
  shows "waitRunning describe latency bound k = Some WaitTimeout"
  using assms
proof (induction describe latency bound k rule: waitRunning.induct)
  case (1 describe latency bound k)
  have st: "observedState (describe k) \<noteq> Some InstanceStateNameRunning"
    "observedState (describe k) \<noteq> Some InstanceStateNameTerminated"
    "observedState (describe k) \<noteq> Some InstanceStateNameShuttingDown"
    using "1.prems" [of k] by simp_all
  show ?case
  proof (cases "since latency k > bound")
    case True
    then show ?thesis
      using st by (simp add: waitRunning.simps [of describe latency bound k] Let_def)
  next
    case False
    then have "waitRunning describe latency bound (k + 1) = Some WaitTimeout"
      using "1.IH" [OF refl st(1) st(2) st(3)] "1.prems" by simp
    then show ?thesis
      using False st by (simp add: waitRunning.simps [of describe latency bound k] Let_def)
  qed
qed

lemma createInstanceAsync_timeout:
  assumes "faults d = []"
    and "EC2Client_CreateInstance e region = Inr i"
    and "find (\<lambda>r. UUID r = u \<and> \<not> IsDeleted r) (rows d) = Some r0"
    and "EC2Client_WaitForInstanceRunning e region = Some err"
  shows "fst (V2RayService_createInstanceAsync e d instanceID region u) = Aborted err \<and>
         snd (snd (V2RayService_createInstanceAsync e d instanceID region u)) =
           [CallCreateInstance, CallWaitForInstanceRunning]"
  using assms
  by (simp add: V2RayService_createInstanceAsync_def UpdateStatus_ok GetByUUID_ok Update_ok
      find_setStatus del: map_map)

lemma createInstanceAsync_first_write_fails:
  assumes "faults d = False # fs"
  shows "V2RayService_createInstanceAsync e d instanceID region u =
           (Aborted StatementFailed, d\<lparr>faults := fs\<rparr>, [])"
  using assms
  by (simp add: V2RayService_createInstanceAsync_def Repository_UpdateStatus_def exec_def)

text \<open>
  Claim C5, as amended. For every run of \<open>createInstanceAsync\<close>: the workflow calls
  \<open>EC2Client.CreateInstance\<close> at most once, and no method of the cloud gateway or of the
  local manager twice (last part of the statement). Provided the store executes every statement,
  it calls it exactly once, and every outcome other than success leaves every row
  carrying the uuid with status error; in particular, when the instance was created, the
  row was read back and \<open>WaitForInstanceRunning\<close> returned its timeout error, the
  workflow ends with that error. \<open>WaitForInstanceRunning\<close> does return the timeout error
  when no poll ever reports running, terminated or shutting-down. When the first status
  write fails, the workflow stops there: the table is as it was (the row stays pending)
  and no cloud call is made.
\<close>

theorem createInstanceAsync_failures_end_in_error:
  assumes "V2RayService_createInstanceAsync e d instanceID region u = (out, d', calls)"
  shows "count_list calls CallCreateInstance \<le> 1
    \<and> (faults d = [] \<longrightarrow>
         count_list calls CallCreateInstance = 1 \<and>
         ((\<forall>ip. out \<noteq> Created ip) \<longrightarrow>
            allWithUUID u (\<lambda>r. Status r = StatusError) (rows d')) \<and>
         (EC2Client_CreateInstance e region = Inr i \<and>
          find (\<lambda>r. UUID r = u \<and> \<not> IsDeleted r) (rows d) = Some r0 \<and>
          EC2Client_WaitForInstanceRunning e region = Some WaitTimeout \<longrightarrow>
            out = Aborted WaitTimeout))
    \<and> (hasClient e region \<and>
        (\<forall>j. observedState (DescribeWait e j) \<noteq> Some InstanceStateNameRunning \<and>
             observedState (DescribeWait e j) \<noteq> Some InstanceStateNameTerminated \<and>
             observedState (DescribeWait e j) \<noteq> Some InstanceStateNameShuttingDown) \<longrightarrow>
        EC2Client_WaitForInstanceRunning e region = Some WaitTimeout)
    \<and> (faults d = False # fs \<longrightarrow> out = Aborted StatementFailed \<and> rows d' = rows d \<and> calls = [])
    \<and> distinct calls"
proof (intro conjI impI)
  show "count_list calls CallCreateInstance \<le> 1"
    using assms by (rule createInstanceAsync_calls_le)
next
  assume nf: "faults d = []"
  from createInstanceAsync_ok_case [OF nf, where e = e and instanceID = instanceID and region = region and u = u] assms
  show "count_list calls CallCreateInstance = 1" by simp
next
  assume nf: "faults d = []" and fail: "\<forall>ip. out \<noteq> Created ip"
  from createInstanceAsync_ok_case [OF nf, where e = e and instanceID = instanceID and region = region and u = u] assms fail
  show "allWithUUID u (\<lambda>r. Status r = StatusError) (rows d')"
    by (cases out) simp_all
next
  assume nf: "faults d = []"
    and h: "EC2Client_CreateInstance e region = Inr i \<and>
          find (\<lambda>r. UUID r = u \<and> \<not> IsDeleted r) (rows d) = Some r0 \<and>
          EC2Client_WaitForInstanceRunning e region = Some WaitTimeout"
  from h have a: "EC2Client_CreateInstance e region = Inr i"
    and b: "find (\<lambda>r. UUID r = u \<and> \<not> IsDeleted r) (rows d) = Some r0"
    and c: "EC2Client_WaitForInstanceRunning e region = Some WaitTimeout"
    by simp_all
  from createInstanceAsync_timeout [OF nf a b c]
  have "fst (V2RayService_createInstanceAsync e d instanceID region u) = Aborted WaitTimeout"
    by simp
  with assms show "out = Aborted WaitTimeout" by simp
next
  assume "hasClient e region \<and>
        (\<forall>j. observedState (DescribeWait e j) \<noteq> Some InstanceStateNameRunning \<and>
             observedState (DescribeWait e j) \<noteq> Some InstanceStateNameTerminated \<and>
             observedState (DescribeWait e j) \<noteq> Some InstanceStateNameShuttingDown)"
  then have c: "hasClient e region"
    and n: "\<And>j. observedState (DescribeWait e j) \<noteq> Some InstanceStateNameRunning \<and>
             observedState (DescribeWait e j) \<noteq> Some InstanceStateNameTerminated \<and>
             observedState (DescribeWait e j) \<noteq> Some InstanceStateNameShuttingDown"
    by blast+
  have "waitRunning (DescribeWait e) (Latency e) (waitBound e) 0 = Some WaitTimeout"
    using n by (rule waitRunning_never)
  with c show "EC2Client_WaitForInstanceRunning e region = Some WaitTimeout"
    by (simp only: EC2Client_WaitForInstanceRunning_def not_True_eq_False if_False)
next
  assume f: "faults d = False # fs"
  have "V2RayService_createInstanceAsync e d instanceID region u =
      (Aborted StatementFailed, d\<lparr>faults := fs\<rparr>, [])"
    using f by (rule createInstanceAsync_first_write_fails)
  with assms have "out = Aborted StatementFailed" "d' = d\<lparr>faults := fs\<rparr>" "calls = []"
    by simp_all
  then show "out = Aborted StatementFailed" "rows d' = rows d" "calls = []"
    by simp_all
next
  show "distinct calls"
    using assms by (rule createInstanceAsync_calls_distinct)
qed

text \<open>
  Claim C5 as stated fails: a run whose first statement the database rejects ends
  without success, leaves the row pending, not in error, and has not called the cloud
  at all.
\<close>

theorem createInstanceAsync_store_failure_leaves_pending:
  "V2RayService_createInstanceAsync
     \<lparr>Regions = [(''r1'', \<lparr>TemplateID = ''lt-1'', Name = ''Region 1''\<rparr>)],
       InstanceWaitTimeout = 10, Latency = (\<lambda>k. 0), RunInstances = Some [''i-1''],
       DescribeWait = (\<lambda>k. Reservations [[\<lparr>InstanceId = ''i-1'', PublicIpAddress = None,
                         StateName = InstanceStateNamePending, Tags = [(''UUID'', ''u1'')]\<rparr>]]),
       DescribeIP = DescribeError, LocalManager = None, TerminateInstances = None,
       DescribeTerminated = (\<lambda>k. DescribeError), DescribeRegion = (\<lambda>region. DescribeError)\<rparr>
     \<lparr>rows = [\<lparr>ID = 1, UUID = ''u1'', EC2ID = [], EC2Region = ''r1'', EC2RegionName = [],
                 EC2PublicIP = [], Status = StatusPending, DirectLink = [], RelayLink = [],
                 IsDeleted = False\<rparr>], faults = [False]\<rparr> 1 ''r1'' ''u1'' =
   (Aborted StatementFailed, \<lparr>rows = [\<lparr>ID = 1, UUID = ''u1'', EC2ID = [], EC2Region = ''r1'', EC2RegionName = [],
                 EC2PublicIP = [], Status = StatusPending, DirectLink = [], RelayLink = [],
                 IsDeleted = False\<rparr>], faults = []\<rparr>, [])"
  by (simp add: V2RayService_createInstanceAsync_def Repository_UpdateStatus_def exec_def)

text \<open>
  A run of the amended claim C5: the cloud keeps reporting pending, the timeout is ten
  seconds, and the row ends in error after one creation call.
\<close>

theorem createInstanceAsync_failures_end_in_error_witness:
  "V2RayService_createInstanceAsync
     \<lparr>Regions = [(''r1'', \<lparr>TemplateID = ''lt-1'', Name = ''Region 1''\<rparr>)],
       InstanceWaitTimeout = 10, Latency = (\<lambda>k. 0), RunInstances = Some [''i-1''],
       DescribeWait = (\<lambda>k. Reservations [[\<lparr>InstanceId = ''i-1'', PublicIpAddress = None,
                         StateName = InstanceStateNamePending, Tags = [(''UUID'', ''u1'')]\<rparr>]]),
       DescribeIP = DescribeError, LocalManager = None, TerminateInstances = None,
       DescribeTerminated = (\<lambda>k. DescribeError), DescribeRegion = (\<lambda>region. DescribeError)\<rparr>
     \<lparr>rows = [\<lparr>ID = 1, UUID = ''u1'', EC2ID = [], EC2Region = ''r1'', EC2RegionName = [],
                 EC2PublicIP = [], Status = StatusPending, DirectLink = [], RelayLink = [],
                 IsDeleted = False\<rparr>], faults = []\<rparr> 1 ''r1'' ''u1'' =
   (Aborted WaitTimeout, \<lparr>rows = [\<lparr>ID = 1, UUID = ''u1'', EC2ID = ''i-1'', EC2Region = ''r1'', EC2RegionName = [],
                 EC2PublicIP = [], Status = StatusError, DirectLink = [], RelayLink = [],
                 IsDeleted = False\<rparr>], faults = []\<rparr>,
    [CallCreateInstance, CallWaitForInstanceRunning])
   \<and> count_list [CallCreateInstance, CallWaitForInstanceRunning] CallCreateInstance = 1
   \<and> allWithUUID ''u1'' (\<lambda>r. Status r = StatusError) [\<lparr>ID = 1, UUID = ''u1'', EC2ID = ''i-1'', EC2Region = ''r1'', EC2RegionName = [],
                 EC2PublicIP = [], Status = StatusError, DirectLink = [], RelayLink = [],
                 IsDeleted = False\<rparr>]"
proof -
  let ?e = "\<lparr>Regions = [(''r1'', \<lparr>TemplateID = ''lt-1'', Name = ''Region 1''\<rparr>)],
       InstanceWaitTimeout = 10, Latency = (\<lambda>k. 0), RunInstances = Some [''i-1''],
       DescribeWait = (\<lambda>k. Reservations [[\<lparr>InstanceId = ''i-1'', PublicIpAddress = None,
                         StateName = InstanceStateNamePending, Tags = [(''UUID'', ''u1'')]\<rparr>]]),
       DescribeIP = DescribeError, LocalManager = None, TerminateInstances = None,
       DescribeTerminated = (\<lambda>k. DescribeError), DescribeRegion = (\<lambda>region. DescribeError)\<rparr>"
  let ?d = "\<lparr>rows = [\<lparr>ID = 1, UUID = ''u1'', EC2ID = [], EC2Region = ''r1'', EC2RegionName = [],
                 EC2PublicIP = [], Status = StatusPending, DirectLink = [], RelayLink = [],
                 IsDeleted = False\<rparr>], faults = []\<rparr>"
  have w: "EC2Client_WaitForInstanceRunning ?e ''r1'' = Some WaitTimeout"
    by (simp add: EC2Client_WaitForInstanceRunning_def hasClient_def observedState_def Let_def
        waitBound_def wrap64_def since_def
        waitRunning.simps [of _ _ _ 0] waitRunning.simps [of _ _ _ "Suc 0"])
  have run: "V2RayService_createInstanceAsync ?e ?d 1 ''r1'' ''u1'' =
      (Aborted WaitTimeout, \<lparr>rows = [\<lparr>ID = 1, UUID = ''u1'', EC2ID = ''i-1'', EC2Region = ''r1'', EC2RegionName = [],
                 EC2PublicIP = [], Status = StatusError, DirectLink = [], RelayLink = [],
                 IsDeleted = False\<rparr>], faults = []\<rparr>,
       [CallCreateInstance, CallWaitForInstanceRunning])"
    by (simp add: V2RayService_createInstanceAsync_def UpdateStatus_ok GetByUUID_ok Update_ok
        EC2Client_CreateInstance_def hasClient_def w)
  from createInstanceAsync_failures_end_in_error [OF run] run
  show ?thesis by (simp add: allWithUUID_def)
qed


section \<open>DeleteInstance and the teardown workflow\<close>

lemma ctxCancelled_mono: "ctxCancelled ctx j \<Longrightarrow> j \<le> i \<Longrightarrow> ctxCancelled ctx i"
  by (cases ctx) (simp_all add: ctxCancelled_def)

lemma ctxCancelled_later: "ctxCancelled (later k ctx) i = ctxCancelled ctx (k + i)"
  by (cases ctx) (auto simp add: ctxCancelled_def later_def)






lemma DeleteInstance_present:
  assumes "find (\<lambda>r. UUID r = uuid \<and> \<not> IsDeleted r) (rows d) = Some r"
  shows "V2RayService_DeleteInstance ctx d uuid =
     (if ctxCancelled ctx 0 then (Some InstanceNotFound, d, None)
      else if \<not> executes 0 d then (Some InstanceNotFound, advance 1 d, None)
      else if ctxCancelled ctx 1 then (Some FailedToUpdateStatus, advance 1 d, None)
      else if \<not> executes 1 d then (Some FailedToUpdateStatus, advance 2 d, None)
      else (None,
            (advance 2 d)\<lparr>rows := map (\<lambda>x. if UUID x = uuid then x\<lparr>Status := StatusDeleting\<rparr> else x) (rows d)\<rparr>,
            Some (later 2 ctx, uuid, EC2ID r, EC2Region r)))"
  using assms
  by (simp add: V2RayService_DeleteInstance_def GetByUUID_executes UpdateStatus_executes
      withContext_def rows_advance executes_advance advance_advance eval_nat_numeral)




lemma waitTerminated_None:
  "waitTerminated describe latency bound i = (None, m) \<Longrightarrow> i < m \<and> gone (describe (m - 1))"
proof (induction describe latency bound i rule: waitTerminated.induct)
  case (1 describe latency bound k)
  show ?case
  proof (cases "describe k")
    case DescribeError
    with "1.prems" show ?thesis
      by (simp add: waitTerminated.simps [of describe latency bound k])
  next
    case (Reservations rs)
    show ?thesis
    proof (cases "first_instance rs")
      case None
      with Reservations "1.prems" show ?thesis
        by (auto simp add: waitTerminated.simps [of describe latency bound k] gone_def)
    next
      case (Some inst)
      show ?thesis
      proof (cases "StateName inst = InstanceStateNameTerminated")
        case True
        with Some Reservations "1.prems" show ?thesis
          by (auto simp add: waitTerminated.simps [of describe latency bound k] gone_def)
      next
        case False
        show ?thesis
        proof (cases "since latency k > bound")
          case True
          with False Some Reservations "1.prems" show ?thesis
            by (simp add: waitTerminated.simps [of describe latency bound k])
        next
          case over: False
          with False Some Reservations "1.prems"
          have "waitTerminated describe latency bound (k + 1) = (None, m)"
            by (simp add: waitTerminated.simps [of describe latency bound k])
          with "1.IH" [OF Reservations Some False over]
          show ?thesis by simp
        qed
      qed
    qed
  qed
qed


lemma WaitForInstanceTerminated_None:
  assumes "EC2Client_WaitForInstanceTerminated ctx i e region = (None, m)"
  shows "0 < m \<and> \<not> ctxCancelled ctx (i + (m - 1)) \<and> gone (DescribeTerminated e (m - 1))"
proof -
  let ?describe = "\<lambda>k. if ctxCancelled ctx (i + k) then DescribeError else DescribeTerminated e k"
  from assms have "waitTerminated ?describe (Latency e) (waitBound e) 0 = (None, m)"
    by (simp add: EC2Client_WaitForInstanceTerminated_def split: if_splits)
  from waitTerminated_None [OF this]
  have "0 < m" and g: "gone (?describe (m - 1))" by blast+
  have c: "\<not> ctxCancelled ctx (i + (m - 1))"
  proof
    assume "ctxCancelled ctx (i + (m - 1))"
    with g have "gone DescribeError" by simp
    then show False by (simp add: gone_def)
  qed
  with g have "gone (DescribeTerminated e (m - 1))" by simp
  with c \<open>0 < m\<close> show ?thesis by simp
qed


lemma deleteInstanceAsync_first_write:
  assumes "ctxCancelled ctx 0 \<or> \<not> executes 0 d"
  shows "V2RayService_deleteInstanceAsync ctx e d uuid ec2ID region =
     (if ctxCancelled ctx 0 then (Aborted ContextCanceled, d, [])
      else (Aborted StatementFailed, advance 1 d, []))"
proof (cases "ctxCancelled ctx 0")
  case True
  then show ?thesis
    by (simp add: V2RayService_deleteInstanceAsync_def withContext_def)
next
  case False
  with assms have "\<not> executes 0 d" by simp
  with False show ?thesis
    by (simp add: V2RayService_deleteInstanceAsync_def withContext_def UpdateStatus_executes)
qed

lemma deleteInstanceAsync_cancelled_at_last_write:
  assumes "hasClient e region" and "TerminateInstances e = Some n" and "0 < n"
    and "EC2Client_WaitForInstanceTerminated ctx 2 e region = (None, m)"
    and "ctxCancelled ctx (2 + m)"
    and "executes 0 d"
  shows "V2RayService_deleteInstanceAsync ctx e d uuid ec2ID region =
     (Aborted ContextCanceled,
      (advance 1 d)\<lparr>rows :=
         map (\<lambda>r. if UUID r = uuid then r\<lparr>Status := StatusDeleting\<rparr> else r) (rows d)\<rparr>,
      [CallTerminateInstance, CallWaitForInstanceTerminated])"
proof -
  from WaitForInstanceTerminated_None [OF assms(4)]
  have "\<not> ctxCancelled ctx (2 + (m - 1))" and "0 < m" by blast+
  then have c0: "\<not> ctxCancelled ctx 0" and c1: "\<not> ctxCancelled ctx 1"
    using ctxCancelled_mono [of ctx 0 "2 + (m - 1)"] ctxCancelled_mono [of ctx 1 "2 + (m - 1)"]
    by auto
  have t: "EC2Client_TerminateInstance ctx (Suc 0) e region = None"
    using assms(1,2,3) c1 by (simp add: EC2Client_TerminateInstance_def)
  show ?thesis
    using assms(4,5,6) c0
    by (simp add: V2RayService_deleteInstanceAsync_def withContext_def UpdateStatus_executes
        t rows_advance executes_advance executes_rows advance_advance
        advance_rows eval_nat_numeral del: map_map)
qed




text \<open>
  The teardown and the context of the request. \<open>CreateInstance\<close> starts its workflow with
  \<open>context.TODO()\<close>; \<open>DeleteInstance\<close> hands the teardown its own context, which the
  handler derives from the request. A teardown whose context is cancelled when it
  starts stops at its first statement, with no row changed and no request to the cloud.
  A teardown ends with the rows deleted only if the wait returned without error and the
  context was still live at the last write. Called through the handler, with a store
  that executes both statements and a context cancelled after them, the request is
  answered with status 200 and the text deleting, and the teardown is started with the
  context of the request.
\<close>

lemma deleteInstanceAsync_context_cancelled:
  "ctxCancelled tctx 0 \<Longrightarrow>
   V2RayService_deleteInstanceAsync tctx e d uuid ec2ID region = (Aborted ContextCanceled, d, [])"
  by (simp add: deleteInstanceAsync_first_write)

lemma deleteInstanceAsync_Deleted_context:
  assumes "fst (V2RayService_deleteInstanceAsync tctx e d uuid ec2ID region) = Deleted"
  shows "\<exists>m. EC2Client_WaitForInstanceTerminated tctx 2 e region = (None, m) \<and>
             \<not> ctxCancelled tctx (2 + m)"
proof -
  obtain w m where w: "EC2Client_WaitForInstanceTerminated tctx 2 e region = (w, m)"
    by (cases "EC2Client_WaitForInstanceTerminated tctx 2 e region")
  show ?thesis
  proof (cases "w = None \<and> \<not> ctxCancelled tctx (2 + m)")
    case True
    with w show ?thesis by blast
  next
    case False
    then have "fst (V2RayService_deleteInstanceAsync tctx e d uuid ec2ID region) \<noteq> Deleted"
      using w
      by (auto simp add: V2RayService_deleteInstanceAsync_def withContext_def
          split: prod.splits option.splits)
    with assms show ?thesis by simp
  qed
qed

lemma Handler_DeleteInstance_launch:
  assumes "find (\<lambda>r. UUID r = uuid \<and> \<not> IsDeleted r) (rows d) = Some r"
    and "executes 0 d" and "executes 1 d" and "2 \<le> n"
  shows "V2RayHandler_DeleteInstance n d uuid =
     (DeleteInstanceResponse 200 ''deleting'',
      (advance 2 d)\<lparr>rows :=
         map (\<lambda>x. if UUID x = uuid then x\<lparr>Status := StatusDeleting\<rparr> else x) (rows d)\<rparr>,
      Some (RequestContext (n - 2), uuid, EC2ID r, EC2Region r))"
  using assms
  by (simp add: V2RayHandler_DeleteInstance_def DeleteInstance_present ctxCancelled_def later_def)

text \<open>
  The request context is cancelled when the handler has returned and before the
  teardown issues its first statement: the row stays in status deleting and the cloud
  instance is never terminated.
\<close>

theorem DeleteInstance_request_context_cancelled:
  "V2RayHandler_DeleteInstance 2
     \<lparr>rows = [\<lparr>ID = 1, UUID = ''u1'', EC2ID = ''i-1'', EC2Region = ''r1'', EC2RegionName = [],
              EC2PublicIP = ''203.0.113.5'', Status = StatusRunning, DirectLink = [], RelayLink = [],
              IsDeleted = False\<rparr>], faults = []\<rparr> ''u1'' =
   (DeleteInstanceResponse 200 ''deleting'',
    \<lparr>rows = [\<lparr>ID = 1, UUID = ''u1'', EC2ID = ''i-1'', EC2Region = ''r1'', EC2RegionName = [],
              EC2PublicIP = ''203.0.113.5'', Status = StatusDeleting, DirectLink = [], RelayLink = [],
              IsDeleted = False\<rparr>], faults = []\<rparr>,
    Some (RequestContext 0, ''u1'', ''i-1'', ''r1''))
   \<and> V2RayService_deleteInstanceAsync (RequestContext 0)
       \<lparr>Regions = [(''r1'', \<lparr>TemplateID = ''lt-1'', Name = ''Region 1''\<rparr>)],
       InstanceWaitTimeout = 300, Latency = (\<lambda>k. 0), RunInstances = None,
       DescribeWait = (\<lambda>k. DescribeError), DescribeIP = DescribeError, LocalManager = None,
       TerminateInstances = Some 2,
       DescribeTerminated = (\<lambda>k. Reservations []),
       DescribeRegion = (\<lambda>region. DescribeError)\<rparr>
       \<lparr>rows = [\<lparr>ID = 1, UUID = ''u1'', EC2ID = ''i-1'', EC2Region = ''r1'', EC2RegionName = [],
              EC2PublicIP = ''203.0.113.5'', Status = StatusDeleting, DirectLink = [], RelayLink = [],
              IsDeleted = False\<rparr>], faults = []\<rparr> ''u1'' ''i-1'' ''r1'' =
     (Aborted ContextCanceled,
      \<lparr>rows = [\<lparr>ID = 1, UUID = ''u1'', EC2ID = ''i-1'', EC2Region = ''r1'', EC2RegionName = [],
              EC2PublicIP = ''203.0.113.5'', Status = StatusDeleting, DirectLink = [], RelayLink = [],
              IsDeleted = False\<rparr>], faults = []\<rparr>,
      [])"
  by (simp add: V2RayHandler_DeleteInstance_def V2RayService_DeleteInstance_def
      V2RayService_deleteInstanceAsync_def withContext_def ctxCancelled_def later_def
      Repository_GetByUUID_def Repository_UpdateStatus_def exec_def)

section \<open>The reconciler: what a pass can change\<close>






lemma Update_rows:
  "rows (snd (Repository_Update d inst)) = rows d \<or>
   rows (snd (Repository_Update d inst)) =
     map (\<lambda>r. if UUID r = UUID inst
               then r\<lparr>EC2ID := EC2ID inst, EC2Region := EC2Region inst,
                      EC2PublicIP := EC2PublicIP inst, Status := Status inst,
                      DirectLink := DirectLink inst, RelayLink := RelayLink inst,
                      IsDeleted := IsDeleted inst\<rparr>
               else r) (rows d)"
proof -
  obtain ok d1 where e: "exec d = (ok, d1)" by (cases "exec d")
  with exec_rows [of d] have "rows d1 = rows d" by simp
  then show ?thesis
    by (cases ok) (simp_all add: Repository_Update_def e)
qed


















lemma updateInstance_length:
  "length (rows (AWSInstanceSyncTask_updateInstance d r inst)) = length (rows d)"
proof -
  have "length (rows (snd (Repository_Update d x))) = length (rows d)" for x
    using Update_rows [of d x] by (elim disjE) simp_all
  then show ?thesis
    by (simp add: AWSInstanceSyncTask_updateInstance_def Let_def)
qed

lemma untagged_length:
  "list_all (\<lambda>i. InfoUUID i = []) insts \<Longrightarrow>
   length (rows (fst (syncRegionInstances (d, m) insts))) = length (rows d)"
proof (induction insts arbitrary: d m)
  case Nil
  then show ?case by simp
next
  case (Cons inst rest)
  then have u: "InfoUUID inst = []" and r: "list_all (\<lambda>i. InfoUUID i = []) rest"
    by simp_all
  show ?case
  proof (cases "map_of m (InstanceID inst)")
    case None
    with u Cons.IH [OF r, of d m] show ?thesis
      by (simp add: AWSInstanceSyncTask_createInstance_def)
  next
    case (Some x)
    with Cons.IH [OF r, of "AWSInstanceSyncTask_updateInstance d x inst"
        "AList.delete (InstanceID inst) m"]
    show ?thesis
      by (simp add: updateInstance_length)
  qed
qed

text \<open>
  Claim C3, as amended. A live instance without the ownership tag never makes the
  reconciler create a record: \<open>createInstance\<close> returns the store as it was, and a run
  of the inner loop over untagged instances leaves the number of rows unchanged. When no
  persisted record has its EC2 id, the instance changes neither the store nor the
  working set. When a persisted record has its EC2 id, the instance is matched by that
  id whatever its tags: the record is updated from it and leaves the working set (stated
  for an untagged instance, and in the last part for any instance).
\<close>

theorem untagged_instance_creates_no_record:
  "(InfoUUID inst = [] \<longrightarrow>
      AWSInstanceSyncTask_createInstance d inst = d \<and>
      (map_of m (InstanceID inst) = None \<longrightarrow> syncRegionInstances (d, m) [inst] = (d, m)) \<and>
      (map_of m (InstanceID inst) = Some r \<longrightarrow>
         syncRegionInstances (d, m) [inst] =
           (AWSInstanceSyncTask_updateInstance d r inst, AList.delete (InstanceID inst) m)))
   \<and> (list_all (\<lambda>i. InfoUUID i = []) insts \<longrightarrow>
        length (rows (fst (syncRegionInstances (d, m) insts))) = length (rows d))
   \<and> (map_of m (InstanceID other) = Some r \<longrightarrow>
        syncRegionInstances (d, m) [other] =
          (AWSInstanceSyncTask_updateInstance d r other, AList.delete (InstanceID other) m))"
  by (simp add: AWSInstanceSyncTask_createInstance_def untagged_length)

text \<open>
  An untagged instance whose EC2 id no record has: store and working set stay as they
  were. A tagged instance whose EC2 id a record has: the record is updated from it and
  leaves the working set.
\<close>

theorem untagged_instance_creates_no_record_witness:
  "syncRegionInstances
     (\<lparr>rows = [\<lparr>ID = 1, UUID = ''u1'', EC2ID = ''i-1'', EC2Region = ''r1'', EC2RegionName = [],
          EC2PublicIP = ''203.0.113.5'', Status = StatusRunning, DirectLink = [], RelayLink = [],
          IsDeleted = False\<rparr>], faults = []\<rparr>, [(''i-1'', \<lparr>ID = 1, UUID = ''u1'', EC2ID = ''i-1'', EC2Region = ''r1'', EC2RegionName = [],
          EC2PublicIP = ''203.0.113.5'', Status = StatusRunning, DirectLink = [], RelayLink = [],
          IsDeleted = False\<rparr>)])
     [\<lparr>InstanceID = ''i-9'', Region = ''r1'', PublicIP = [], InfoUUID = [],
          InfoStatus = StatusRunning\<rparr>] =
   (\<lparr>rows = [\<lparr>ID = 1, UUID = ''u1'', EC2ID = ''i-1'', EC2Region = ''r1'', EC2RegionName = [],
          EC2PublicIP = ''203.0.113.5'', Status = StatusRunning, DirectLink = [], RelayLink = [],
          IsDeleted = False\<rparr>], faults = []\<rparr>, [(''i-1'', \<lparr>ID = 1, UUID = ''u1'', EC2ID = ''i-1'', EC2Region = ''r1'', EC2RegionName = [],
          EC2PublicIP = ''203.0.113.5'', Status = StatusRunning, DirectLink = [], RelayLink = [],
          IsDeleted = False\<rparr>)])
   \<and> length (rows (fst (syncRegionInstances
       (\<lparr>rows = [\<lparr>ID = 1, UUID = ''u1'', EC2ID = ''i-1'', EC2Region = ''r1'', EC2RegionName = [],
          EC2PublicIP = ''203.0.113.5'', Status = StatusRunning, DirectLink = [], RelayLink = [],
          IsDeleted = False\<rparr>], faults = []\<rparr>, [(''i-1'', \<lparr>ID = 1, UUID = ''u1'', EC2ID = ''i-1'', EC2Region = ''r1'', EC2RegionName = [],
          EC2PublicIP = ''203.0.113.5'', Status = StatusRunning, DirectLink = [], RelayLink = [],
          IsDeleted = False\<rparr>)])
       [\<lparr>InstanceID = ''i-9'', Region = ''r1'', PublicIP = [], InfoUUID = [],
          InfoStatus = StatusRunning\<rparr>]))) = 1
   \<and> syncRegionInstances
       (\<lparr>rows = [\<lparr>ID = 1, UUID = ''u1'', EC2ID = ''i-1'', EC2Region = ''r1'', EC2RegionName = [],
          EC2PublicIP = ''203.0.113.5'', Status = StatusRunning, DirectLink = [], RelayLink = [],
          IsDeleted = False\<rparr>], faults = []\<rparr>, [(''i-1'', \<lparr>ID = 1, UUID = ''u1'', EC2ID = ''i-1'', EC2Region = ''r1'', EC2RegionName = [],
          EC2PublicIP = ''203.0.113.5'', Status = StatusRunning, DirectLink = [], RelayLink = [],
          IsDeleted = False\<rparr>)])
       [\<lparr>InstanceID = ''i-1'', Region = ''r1'', PublicIP = ''203.0.113.5'', InfoUUID = ''u1'',
          InfoStatus = StatusRunning\<rparr>] =
     (AWSInstanceSyncTask_updateInstance
        \<lparr>rows = [\<lparr>ID = 1, UUID = ''u1'', EC2ID = ''i-1'', EC2Region = ''r1'', EC2RegionName = [],
          EC2PublicIP = ''203.0.113.5'', Status = StatusRunning, DirectLink = [], RelayLink = [],
          IsDeleted = False\<rparr>], faults = []\<rparr>
        \<lparr>ID = 1, UUID = ''u1'', EC2ID = ''i-1'', EC2Region = ''r1'', EC2RegionName = [],
          EC2PublicIP = ''203.0.113.5'', Status = StatusRunning, DirectLink = [], RelayLink = [],
          IsDeleted = False\<rparr>
        \<lparr>InstanceID = ''i-1'', Region = ''r1'', PublicIP = ''203.0.113.5'', InfoUUID = ''u1'',
          InfoStatus = StatusRunning\<rparr>, [])"
  using untagged_instance_creates_no_record [where inst = "\<lparr>InstanceID = ''i-9'', Region = ''r1'', PublicIP = [], InfoUUID = [],
          InfoStatus = StatusRunning\<rparr>"
      and d = "\<lparr>rows = [\<lparr>ID = 1, UUID = ''u1'', EC2ID = ''i-1'', EC2Region = ''r1'', EC2RegionName = [],
          EC2PublicIP = ''203.0.113.5'', Status = StatusRunning, DirectLink = [], RelayLink = [],
          IsDeleted = False\<rparr>], faults = []\<rparr>" and m = "[(''i-1'', \<lparr>ID = 1, UUID = ''u1'', EC2ID = ''i-1'', EC2Region = ''r1'', EC2RegionName = [],
          EC2PublicIP = ''203.0.113.5'', Status = StatusRunning, DirectLink = [], RelayLink = [],
          IsDeleted = False\<rparr>)]"
      and insts = "[\<lparr>InstanceID = ''i-9'', Region = ''r1'', PublicIP = [], InfoUUID = [],
          InfoStatus = StatusRunning\<rparr>]"
      and other = "\<lparr>InstanceID = ''i-1'', Region = ''r1'', PublicIP = ''203.0.113.5'', InfoUUID = ''u1'',
          InfoStatus = StatusRunning\<rparr>"
      and r = "\<lparr>ID = 1, UUID = ''u1'', EC2ID = ''i-1'', EC2Region = ''r1'', EC2RegionName = [],
          EC2PublicIP = ''203.0.113.5'', Status = StatusRunning, DirectLink = [], RelayLink = [],
          IsDeleted = False\<rparr>"]
  by simp






section \<open>The reconciler on concrete inventories\<close>

text \<open>
  Claim C2 on the code. Two regions are configured; the listing of \<open>r1\<close> fails and the
  listing of \<open>r2\<close> succeeds. The pass goes on to \<open>r2\<close> and updates its record, but the
  record of \<open>r1\<close>, never looked up in the cloud, is still in the working set at the end
  and is soft-deleted.
\<close>

theorem syncInstances_failed_fetch_soft_deletes:
  "rows (AWSInstanceSyncTask_syncInstances
     \<lparr>Regions = [(''r1'', \<lparr>TemplateID = ''lt-1'', Name = ''Region 1''\<rparr>),
                 (''r2'', \<lparr>TemplateID = ''lt-2'', Name = ''Region 2''\<rparr>)],
       InstanceWaitTimeout = 300, Latency = (\<lambda>k. 0), RunInstances = None,
       DescribeWait = (\<lambda>k. DescribeError), DescribeIP = DescribeError, LocalManager = None,
       TerminateInstances = None, DescribeTerminated = (\<lambda>k. DescribeError),
       DescribeRegion = (\<lambda>region. if region = ''r2''
          then Reservations [[\<lparr>InstanceId = ''i-2'', PublicIpAddress = Some ''198.51.100.7'',
                  StateName = InstanceStateNameRunning, Tags = [(''UUID'', ''u2'')]\<rparr>]]
          else DescribeError)\<rparr>
     \<lparr>rows = [\<lparr>ID = 1, UUID = ''u1'', EC2ID = ''i-1'', EC2Region = ''r1'', EC2RegionName = [],
              EC2PublicIP = ''203.0.113.5'', Status = StatusRunning, DirectLink = [], RelayLink = [],
              IsDeleted = False\<rparr>,
             \<lparr>ID = 2, UUID = ''u2'', EC2ID = ''i-2'', EC2Region = ''r2'', EC2RegionName = [],
              EC2PublicIP = [], Status = StatusCreating, DirectLink = [], RelayLink = [],
              IsDeleted = False\<rparr>], faults = []\<rparr>) =
   [\<lparr>ID = 1, UUID = ''u1'', EC2ID = ''i-1'', EC2Region = ''r1'', EC2RegionName = [],
              EC2PublicIP = ''203.0.113.5'', Status = StatusDeleted, DirectLink = [], RelayLink = [],
              IsDeleted = True\<rparr>,
    \<lparr>ID = 2, UUID = ''u2'', EC2ID = ''i-2'', EC2Region = ''r2'', EC2RegionName = [],
              EC2PublicIP = ''198.51.100.7'', Status = StatusRunning, DirectLink = [], RelayLink = [],
              IsDeleted = False\<rparr>]"
  by (simp add: AWSInstanceSyncTask_syncInstances_def List_ok EC2Client_DescribeInstances_def
      hasClient_def uuidTag_def AWSInstanceSyncTask_updateInstance_def
      AWSInstanceSyncTask_createInstance_def Update_ok Create_ok Delete_ok Let_def)

text \<open>
  Claim C3 as stated fails: a live instance without tags whose EC2 id is that of a
  persisted record is matched to it; the record takes its status and address and is not
  soft-deleted.
\<close>

theorem syncInstances_untagged_instance_matched:
  "uuidTag [] = [] \<and>
   rows (AWSInstanceSyncTask_syncInstances
     \<lparr>Regions = [(''r1'', \<lparr>TemplateID = ''lt-1'', Name = ''Region 1''\<rparr>)],
       InstanceWaitTimeout = 300, Latency = (\<lambda>k. 0), RunInstances = None,
       DescribeWait = (\<lambda>k. DescribeError), DescribeIP = DescribeError, LocalManager = None,
       TerminateInstances = None, DescribeTerminated = (\<lambda>k. DescribeError),
       DescribeRegion = (\<lambda>region. Reservations [[\<lparr>InstanceId = ''i-1'', PublicIpAddress = Some ''198.51.100.7'',
                  StateName = InstanceStateNameRunning, Tags = []\<rparr>]])\<rparr>
     \<lparr>rows = [\<lparr>ID = 1, UUID = ''u1'', EC2ID = ''i-1'', EC2Region = ''r1'', EC2RegionName = [],
              EC2PublicIP = [], Status = StatusCreating, DirectLink = [], RelayLink = [],
              IsDeleted = False\<rparr>], faults = []\<rparr>) =
   [\<lparr>ID = 1, UUID = ''u1'', EC2ID = ''i-1'', EC2Region = ''r1'', EC2RegionName = [],
              EC2PublicIP = ''198.51.100.7'', Status = StatusRunning, DirectLink = [], RelayLink = [],
              IsDeleted = False\<rparr>]"
  by (simp add: AWSInstanceSyncTask_syncInstances_def List_ok EC2Client_DescribeInstances_def
      hasClient_def uuidTag_def AWSInstanceSyncTask_updateInstance_def
      AWSInstanceSyncTask_createInstance_def Update_ok Create_ok Delete_ok Let_def)

text \<open>
  Claim C4 on the code. The cloud reports a tagged instance in state pending, whose
  derived status is creating, and no record exists: the record created has status running.
\<close>

theorem syncInstances_creates_running_for_pending:
  "ConvertInstanceStateToModelStatus InstanceStateNamePending = StatusCreating \<and>
   rows (AWSInstanceSyncTask_syncInstances
     \<lparr>Regions = [(''r1'', \<lparr>TemplateID = ''lt-1'', Name = ''Region 1''\<rparr>)],
       InstanceWaitTimeout = 300, Latency = (\<lambda>k. 0), RunInstances = None,
       DescribeWait = (\<lambda>k. DescribeError), DescribeIP = DescribeError, LocalManager = None,
       TerminateInstances = None, DescribeTerminated = (\<lambda>k. DescribeError),
       DescribeRegion = (\<lambda>region. Reservations [[\<lparr>InstanceId = ''i-3'', PublicIpAddress = None,
                  StateName = InstanceStateNamePending, Tags = [(''UUID'', ''u3'')]\<rparr>]])\<rparr>
     \<lparr>rows = [], faults = []\<rparr>) =
   [\<lparr>ID = 1, UUID = ''u3'', EC2ID = ''i-3'', EC2Region = ''r1'', EC2RegionName = [],
              EC2PublicIP = [], Status = StatusRunning, DirectLink = [], RelayLink = [],
              IsDeleted = False\<rparr>]"
  by (simp add: AWSInstanceSyncTask_syncInstances_def List_ok EC2Client_DescribeInstances_def
      hasClient_def uuidTag_def AWSInstanceSyncTask_updateInstance_def
      AWSInstanceSyncTask_createInstance_def Update_ok Create_ok Delete_ok Let_def)



section \<open>The scheduler\<close>

lemma stopTasks_open:
  "list_all (\<lambda>nt. \<not> stopChClosed (snd nt)) ts \<Longrightarrow>
   stopTasks ts evs =
     Some (map (\<lambda>nt. (fst nt, (snd nt)\<lparr>stopChClosed := True\<rparr>)) ts,
           evs @ map StopHookCalled (map fst ts))"
  by (induction ts arbitrary: evs) (auto simp: AWSInstanceSyncTask_Stop_def)

lemma stopTasks_closed:
  "ts \<noteq> [] \<Longrightarrow> list_all (\<lambda>nt. stopChClosed (snd nt)) ts \<Longrightarrow> stopTasks ts evs = None"
  by (cases ts) (auto simp: AWSInstanceSyncTask_Stop_def)

lemma stopTasks_some_closed:
  "\<not> list_all (\<lambda>nt. \<not> stopChClosed (snd nt)) ts \<Longrightarrow> stopTasks ts evs = None"
proof (induction ts arbitrary: evs)
  case Nil
  then show ?case by simp
next
  case (Cons nt rest)
  obtain name task where nt: "nt = (name, task)" by (cases nt)
  show ?case
  proof (cases "stopChClosed task")
    case True
    then show ?thesis by (simp add: nt AWSInstanceSyncTask_Stop_def)
  next
    case False
    with Cons.prems nt have "\<not> list_all (\<lambda>nt. \<not> stopChClosed (snd nt)) rest" by simp
    then have "stopTasks rest (evs @ [StopHookCalled name]) = None" by (rule Cons.IH)
    then show ?thesis by (simp add: nt AWSInstanceSyncTask_Stop_def False)
  qed
qed

text \<open>
  Claim C9, as amended. When no registered task has been stopped before, \<open>Stop\<close> first
  raises the cancellation signal, then every started task returns and the wait ends,
  then the stop hook of every registered task is called, in this order, and every
  task's stop channel is left closed. The stop hooks have no protection against a
  second call: when some registered task has been stopped before, \<open>Stop\<close> panics; in
  particular a second \<open>Stop\<close> on a scheduler with at least one task panics.
\<close>

theorem Scheduler_Stop_order_and_second_stop:
  "(list_all (\<lambda>nt. \<not> stopChClosed (snd nt)) (tasks s) \<longrightarrow>
      Scheduler_Stop s =
        Some (s\<lparr>cancelled := True, started := [],
                tasks := map (\<lambda>nt. (fst nt, (snd nt)\<lparr>stopChClosed := True\<rparr>)) (tasks s)\<rparr>,
              [CancelRaised] @ map TaskReturned (started s) @ [WaitReturned]
                @ map StopHookCalled (map fst (tasks s))))
   \<and> (\<not> list_all (\<lambda>nt. \<not> stopChClosed (snd nt)) (tasks s) \<longrightarrow> Scheduler_Stop s = None)
   \<and> (tasks s \<noteq> [] \<longrightarrow>
        Scheduler_Stop
          (s\<lparr>cancelled := True, started := [],
             tasks := map (\<lambda>nt. (fst nt, (snd nt)\<lparr>stopChClosed := True\<rparr>)) (tasks s)\<rparr>) = None)"
proof (intro conjI impI)
  assume "list_all (\<lambda>nt. \<not> stopChClosed (snd nt)) (tasks s)"
  then show "Scheduler_Stop s =
        Some (s\<lparr>cancelled := True, started := [],
                tasks := map (\<lambda>nt. (fst nt, (snd nt)\<lparr>stopChClosed := True\<rparr>)) (tasks s)\<rparr>,
              [CancelRaised] @ map TaskReturned (started s) @ [WaitReturned]
                @ map StopHookCalled (map fst (tasks s)))"
    by (simp add: Scheduler_Stop_def Let_def stopTasks_open)
next
  assume "\<not> list_all (\<lambda>nt. \<not> stopChClosed (snd nt)) (tasks s)"
  then show "Scheduler_Stop s = None"
    by (simp add: Scheduler_Stop_def Let_def stopTasks_some_closed)
next
  assume ne: "tasks s \<noteq> []"
  let ?ts = "map (\<lambda>nt. (fst nt, (snd nt)\<lparr>stopChClosed := True\<rparr>)) (tasks s)"
  have "list_all (\<lambda>nt. stopChClosed (snd nt)) ?ts"
    by (simp add: list_all_iff)
  moreover from ne have "?ts \<noteq> []" by simp
  ultimately have "stopTasks ?ts evs = None" for evs
    by (rule stopTasks_closed [rotated])
  then show "Scheduler_Stop
          (s\<lparr>cancelled := True, started := [], tasks := ?ts\<rparr>) = None"
    by (simp add: Scheduler_Stop_def Let_def)
qed

text \<open>
  Claim C9 as stated fails: with the sync task registered and started, the first
  \<open>Stop\<close> goes through in the order claimed, and the second panics, as does a second
  call of the task's stop hook.
\<close>

theorem Scheduler_Stop_twice_panics:
  "Scheduler_Stop
     (Scheduler_Start (Scheduler_Register NewScheduler ''aws_instance_sync'' NewAWSInstanceSyncTask)) =
   Some (\<lparr>tasks = [(''aws_instance_sync'', \<lparr>stopChClosed = True\<rparr>)], cancelled = True,
          started = []\<rparr>,
         [CancelRaised, TaskReturned ''aws_instance_sync'', WaitReturned,
          StopHookCalled ''aws_instance_sync''])
   \<and> Scheduler_Stop
       \<lparr>tasks = [(''aws_instance_sync'', \<lparr>stopChClosed = True\<rparr>)], cancelled = True,
        started = []\<rparr> = None
   \<and> AWSInstanceSyncTask_Stop \<lparr>stopChClosed = True\<rparr> = None"
  by (simp add: Scheduler_Stop_def Scheduler_Start_def Scheduler_Register_def NewScheduler_def
      NewAWSInstanceSyncTask_def AWSInstanceSyncTask_Stop_def Let_def)

text \<open>
  A scheduler with one started task: the order of the first stop, and the panic of the second.
\<close>

theorem Scheduler_Stop_order_and_second_stop_witness:
  "Scheduler_Stop
     \<lparr>tasks = [(''aws_instance_sync'', \<lparr>stopChClosed = False\<rparr>)], cancelled = False,
      started = [''aws_instance_sync'']\<rparr> =
   Some (\<lparr>tasks = [(''aws_instance_sync'', \<lparr>stopChClosed = True\<rparr>)], cancelled = True,
          started = []\<rparr>,
         [CancelRaised, TaskReturned ''aws_instance_sync'', WaitReturned,
          StopHookCalled ''aws_instance_sync''])
   \<and> Scheduler_Stop
       \<lparr>tasks = [(''aws_instance_sync'', \<lparr>stopChClosed = True\<rparr>)], cancelled = True,
        started = []\<rparr> = None"
  using Scheduler_Stop_order_and_second_stop
    [of "\<lparr>tasks = [(''aws_instance_sync'', \<lparr>stopChClosed = False\<rparr>)], cancelled = False,
         started = [''aws_instance_sync'']\<rparr>"]
  by simp

end
